theory Spec2Isabelle
  imports Main "HOL-Library.AList"
begin

section \<open>The EBI job client of binfpy/webservice.py\<close>

text \<open>
  The class \<^verbatim>\<open>EBI\<close> (webservice.py, lines 383 to 519) submits a job to a remote
  tool service, guards submissions with a lock file, polls the job's status and fetches
  its results. The model below follows the methods one by one.

  Python strings are modelled by the bytes of their UTF-8 encoding. An exception is the
  \<open>Inl\<close> branch of a sum; an attribute assigned before the exception stays assigned, so
  every method returns the session state together with its outcome. Output written by
  \<^verbatim>\<open>print\<close> is not part of the model.
\<close>

subsection \<open>Values, errors and the environment\<close>

text \<open>
  The parameter values the client handles: a string, or a list of strings. Any other
  value (a number, say) only passes through \<^verbatim>\<open>urlencode\<close>, which prints it, and
  is modelled by the string that prints it.
\<close>

datatype pyval = Str string | Lst "string list"

text \<open>A Python dictionary keeps its keys in insertion order.\<close>

type_synonym pydict = "(string \<times> pyval) list"

datatype pyerror =
    RuntimeError string
  | HTTPError
  | URLError
  | KeyError string
  | AttributeError string
  | TypeError
  | FileNotFoundError string
  | UnboundLocalError string

text \<open>
  \<^verbatim>\<open>urllib.request.urlopen(url)\<close> is a GET, \<^verbatim>\<open>urlopen(url, data)\<close> a POST.
  The call returns a body, raises \<^verbatim>\<open>HTTPError\<close> (the service answered with an error
  status), or raises another \<^verbatim>\<open>URLError\<close> (no answer at all).
\<close>

datatype request = Get string | Post string string

datatype response = Body string | HTTPFail | NetFail

text \<open>The remote service: a deterministic machine over a state of its own.\<close>

type_synonym 'r server = "'r \<Rightarrow> request \<Rightarrow> response \<times> 'r"

datatype event =
    Urlopen request
  | Sleep nat
  | Write string string
  | Remove string

text \<open>
  The attributes of the \<^verbatim>\<open>EBI\<close> object (\<open>service\<close>, \<open>lockFile\<close>, \<open>jobId\<close>; an
  attribute that was never assigned is \<open>None\<close>) and the environment it acts on: the
  files of the working directory, the state of the remote service, the trace of
  everything the client did to the outside world, and the interpreter's table of
  printable characters (\<^verbatim>\<open>str.isprintable\<close> on a code point), which \<^verbatim>\<open>repr\<close>
  consults and which is no part of the repository.
\<close>

record 'r session =
  service :: "string option"
  lockFile :: string
  jobId :: "string option"
  files :: "string \<rightharpoonup> string"
  remote :: 'r
  trace :: "event list"
  isprintable :: "nat \<Rightarrow> bool"

definition email :: string where
  "email = ''anon@uq.edu.au''"

definition ebiServiceUrl :: string where
  "ebiServiceUrl = ''http://www.ebi.ac.uk/Tools/services/rest/''"

definition checkInterval :: nat where
  "checkInterval = 2"

text \<open>\<^verbatim>\<open>"%s" % service\<close>: the string itself, or \<^verbatim>\<open>None\<close> printed.\<close>

definition str_opt :: "string option \<Rightarrow> string" where
  "str_opt x = (case x of None \<Rightarrow> ''None'' | Some s \<Rightarrow> s)"

text \<open>\<^verbatim>\<open>__init__\<close> (lines 390 to 395), in a given environment.\<close>

definition EBI_init ::
  "string option \<Rightarrow> (nat \<Rightarrow> bool) \<Rightarrow> (string \<rightharpoonup> string) \<Rightarrow> 'r \<Rightarrow> 'r session" where
  "EBI_init svc pr fs r =
     \<lparr>service = svc, lockFile = str_opt svc @ ''.lock'', jobId = None,
      files = fs, remote = r, trace = [], isprintable = pr\<rparr>"

definition urlopen :: "'r server \<Rightarrow> request \<Rightarrow> 'r session \<Rightarrow> (pyerror + string) \<times> 'r session" where
  "urlopen srv req s =
     (case srv (remote s) req of
        (resp, r') \<Rightarrow>
          (let s' = s\<lparr>remote := r', trace := trace s @ [Urlopen req]\<rparr>
           in case resp of
                Body b \<Rightarrow> (Inr b, s')
              | HTTPFail \<Rightarrow> (Inl HTTPError, s')
              | NetFail \<Rightarrow> (Inl URLError, s')))"

definition sleep :: "nat \<Rightarrow> 'r session \<Rightarrow> 'r session" where
  "sleep n s = s\<lparr>trace := trace s @ [Sleep n]\<rparr>"

subsection \<open>The lock file\<close>

text \<open>
  \<^verbatim>\<open>createLock\<close> (lines 397 to 402): the file is opened for writing, which creates
  or empties it, before \<^verbatim>\<open>self.jobId\<close> is read. The file is a text file: a line feed
  is written as the line separator of the platform. The model is a POSIX platform, where
  the separator is the line feed itself and the file holds the string as it is.
\<close>

definition createLock :: "'r session \<Rightarrow> (pyerror + unit) \<times> 'r session" where
  "createLock s =
     (case jobId s of
        None \<Rightarrow>
          (Inl (AttributeError ''jobId''),
           s\<lparr>files := (files s)(lockFile s \<mapsto> []),
             trace := trace s @ [Write (lockFile s) []]\<rparr>)
      | Some j \<Rightarrow>
          (Inr (),
           s\<lparr>files := (files s)(lockFile s \<mapsto> j),
             trace := trace s @ [Write (lockFile s) j]\<rparr>))"

text \<open>\<^verbatim>\<open>removeLock\<close> (lines 404 to 406): \<^verbatim>\<open>os.remove\<close> raises when the file is missing.\<close>

definition removeLock :: "'r session \<Rightarrow> (pyerror + unit) \<times> 'r session" where
  "removeLock s =
     (case files s (lockFile s) of
        None \<Rightarrow> (Inl (FileNotFoundError (lockFile s)), s)
      | Some _ \<Rightarrow>
          (Inr (),
           s\<lparr>files := (files s)(lockFile s := None),
             trace := trace s @ [Remove (lockFile s)]\<rparr>))"

subsection \<open>Status and lock inspection\<close>

text \<open>\<^verbatim>\<open>status\<close> (lines 459 to 466).\<close>

definition status_url :: "string \<Rightarrow> string \<Rightarrow> string" where
  "status_url svc j = ebiServiceUrl @ svc @ ''/status/'' @ j"

definition status :: "'r server \<Rightarrow> string option \<Rightarrow> 'r session \<Rightarrow> (pyerror + string) \<times> 'r session" where
  "status srv jid s =
     (case (case jid of None \<Rightarrow> jobId s | Some j \<Rightarrow> Some j) of
        None \<Rightarrow> (Inl (AttributeError ''jobId''), s)
      | Some j \<Rightarrow>
          (case service s of
             None \<Rightarrow> (Inl TypeError, s)
           | Some svc \<Rightarrow> urlopen srv (Get (status_url svc j)) s))"

text \<open>
  Reading a text file (\<^verbatim>\<open>open(name, "r").read()\<close>): each carriage return with a line
  feed after it, and each other carriage return, comes back as one line feed.
\<close>

fun universal_newlines :: "string \<Rightarrow> string" where
  "universal_newlines [] = []"
| "universal_newlines [c] = (if c = CHR 0x0D then [CHR 0x0A] else [c])"
| "universal_newlines (c # d # cs) =
     (if c = CHR 0x0D \<and> d = CHR 0x0A then CHR 0x0A # universal_newlines cs
      else if c = CHR 0x0D then CHR 0x0A # universal_newlines (d # cs)
      else c # universal_newlines (d # cs))"

text \<open>
  \<^verbatim>\<open>isLocked\<close> (lines 408 to 424). The job identifier is what the read returns for
  the content of the lock file.
\<close>

definition isLocked :: "'r server \<Rightarrow> 'r session \<Rightarrow> (pyerror + bool) \<times> 'r session" where
  "isLocked srv s =
     (case files s (lockFile s) of
        Some content \<Rightarrow>
          (let jid = universal_newlines content
           in case status srv (Some jid) s of
                (Inl e, s1) \<Rightarrow> (Inl e, s1)
              | (Inr st, s1) \<Rightarrow>
                  if st = ''RUNNING'' then (Inr True, s1\<lparr>jobId := Some jid\<rparr>)
                  else (case removeLock s1 of
                          (Inl e, s2) \<Rightarrow> (Inl e, s2)
                        | (Inr _, s2) \<Rightarrow> (Inr False, s2)))
      | None \<Rightarrow> (Inr False, s))"

subsection \<open>Encoding the request body\<close>

text \<open>
  \<^verbatim>\<open>urllib.parse.quote_plus\<close> with no safe characters, as \<^verbatim>\<open>urlencode\<close> calls it:
  letters, digits and \<^verbatim>\<open>_.-~\<close> stay, a space becomes \<^verbatim>\<open>+\<close>, every other byte
  becomes \<^verbatim>\<open>%XX\<close>.
\<close>

definition always_safe :: "char \<Rightarrow> bool" where
  "always_safe c =
     (c \<in> set ''ABCDEFGHIJKLMNOPQRSTUVWXYZabcdefghijklmnopqrstuvwxyz0123456789_.-~'')"

definition hex_upper :: "nat \<Rightarrow> char" where
  "hex_upper n = ''0123456789ABCDEF'' ! (n mod 16)"

definition quote_byte :: "char \<Rightarrow> string" where
  "quote_byte c =
     (if always_safe c then [c]
      else if c = CHR '' '' then ''+''
      else [CHR ''%'', hex_upper (of_char c div 16), hex_upper (of_char c)])"

definition quote_plus :: "string \<Rightarrow> string" where
  "quote_plus s = concat (map quote_byte s)"

text \<open>
  The characters of a string: a character is a leading byte with the continuation bytes
  \<^verbatim>\<open>10xxxxxx\<close> after it. The code point of a character is read off its bytes: seven
  bits of a single byte, or the low five, four or three bits of the leading byte followed
  by six bits of each continuation byte.
\<close>

definition is_cont :: "char \<Rightarrow> bool" where
  "is_cont c = ((of_char c :: nat) div 64 = 2)"

function utf8_chars :: "string \<Rightarrow> string list" where
  "utf8_chars [] = []"
| "utf8_chars (c # cs) = (c # takeWhile is_cont cs) # utf8_chars (dropWhile is_cont cs)"
  by pat_completeness auto
termination
  by (relation "measure length") (auto simp: less_Suc_eq_le length_dropWhile_le)

definition lead_bits :: "char \<Rightarrow> nat" where
  "lead_bits c =
     (let n = (of_char c :: nat)
      in if n < 128 then n else if n < 224 then n mod 32 else if n < 240 then n mod 16
         else n mod 8)"

definition code_point :: "string \<Rightarrow> nat" where
  "code_point ch =
     (case ch of
        [] \<Rightarrow> 0
      | c # cs \<Rightarrow> foldl (\<lambda>a b. a * 64 + (of_char b :: nat) mod 64) (lead_bits c) cs)"

text \<open>
  \<^verbatim>\<open>repr\<close> of a string: single quotes, unless the string has a single quote and no
  double quote; backslash, the chosen quote, tab, newline and carriage return are
  escaped, other control characters below 128 are written \<^verbatim>\<open>\xNN\<close>. A character from
  128 on is kept when the interpreter's table calls it printable, and is otherwise
  written \<^verbatim>\<open>\xNN\<close>, \<^verbatim>\<open>\uNNNN\<close> or \<^verbatim>\<open>\UNNNNNNNN\<close>, the shortest that holds its code
  point.
\<close>

definition hex_lower :: "nat \<Rightarrow> char" where
  "hex_lower n = ''0123456789abcdef'' ! (n mod 16)"

definition hex_digits :: "nat \<Rightarrow> nat \<Rightarrow> string" where
  "hex_digits k n = map (\<lambda>i. hex_lower (n div 16 ^ i)) (rev [0..<k])"

definition repr_char :: "(nat \<Rightarrow> bool) \<Rightarrow> char \<Rightarrow> string \<Rightarrow> string" where
  "repr_char pr q ch =
     (let n = code_point ch
      in if ch = [q] \<or> ch = [CHR 0x5C] then CHR 0x5C # ch
         else if ch = [CHR 0x09] then [CHR 0x5C, CHR ''t'']
         else if ch = [CHR 0x0A] then [CHR 0x5C, CHR ''n'']
         else if ch = [CHR 0x0D] then [CHR 0x5C, CHR ''r'']
         else if n < 32 \<or> n = 127 then [CHR 0x5C, CHR ''x''] @ hex_digits 2 n
         else if n < 127 then ch
         else if pr n then ch
         else if n < 256 then [CHR 0x5C, CHR ''x''] @ hex_digits 2 n
         else if n < 65536 then [CHR 0x5C, CHR ''u''] @ hex_digits 4 n
         else [CHR 0x5C, CHR ''U''] @ hex_digits 8 n)"

definition repr_str :: "(nat \<Rightarrow> bool) \<Rightarrow> string \<Rightarrow> string" where
  "repr_str pr s =
     (let q = (if CHR 0x27 \<in> set s \<and> CHR 0x22 \<notin> set s then CHR 0x22 else CHR 0x27)
      in q # concat (map (repr_char pr q) (utf8_chars s)) @ [q])"

fun join :: "string \<Rightarrow> string list \<Rightarrow> string" where
  "join sep [] = []"
| "join sep [x] = x"
| "join sep (x # y # ys) = x @ sep @ join sep (y # ys)"

text \<open>\<^verbatim>\<open>str(v)\<close> for a parameter value.\<close>

definition str_val :: "(nat \<Rightarrow> bool) \<Rightarrow> pyval \<Rightarrow> string" where
  "str_val pr v =
     (case v of
        Str s \<Rightarrow> s
      | Lst l \<Rightarrow> ''['' @ join '', '' (map (repr_str pr) l) @ '']'')"

text \<open>\<^verbatim>\<open>urllib.parse.urlencode(params)\<close> on a dictionary, with its defaults.\<close>

definition urlencode :: "(nat \<Rightarrow> bool) \<Rightarrow> pydict \<Rightarrow> string" where
  "urlencode pr params =
     join ''&'' (map (\<lambda>(k, v). quote_plus k @ ''='' @ quote_plus (str_val pr v)) params)"

text \<open>
  Iterating over a parameter value: the elements of a list, the characters of a string.
\<close>

definition iter_val :: "pyval \<Rightarrow> string list" where
  "iter_val v = (case v of Lst l \<Rightarrow> l | Str s \<Rightarrow> utf8_chars s)"

text \<open>\<^verbatim>\<open>params[k] = v\<close> and \<^verbatim>\<open>del params[k]\<close> on a dictionary that has the key.\<close>

definition setitem :: "pydict \<Rightarrow> string \<Rightarrow> pyval \<Rightarrow> pydict" where
  "setitem d k v = AList.update k v d"

definition delitem :: "pydict \<Rightarrow> string \<Rightarrow> pydict" where
  "delitem d k = AList.delete k d"

subsection \<open>Submitting a job\<close>

text \<open>The message of the error raised while another job is running (lines 436 to 441).\<close>

definition running_msg :: "string \<Rightarrow> string \<Rightarrow> string" where
  "running_msg svc j =
     ''You currently have a '' @ svc @ '' job running. You must'' @ [CHR 0x0A]
     @ replicate 34 (CHR '' '')
     @ ''wait until it is complete before submitting another job. Go to'' @ [CHR 0x0A]
     @ replicate 34 (CHR '' '')
     @ ebiServiceUrl @ ''status/'' @ j @ '' to check the status of the job.''"

text \<open>
  The request body of \<^verbatim>\<open>run\<close> (lines 444 to 453) and the dictionary as the code leaves
  it: for the service \<^verbatim>\<open>ncbiblast\<close> the key \<^verbatim>\<open>database\<close> is read, deleted from the
  caller's dictionary, and appended once for each of its elements.
\<close>

definition encode_params ::
  "(nat \<Rightarrow> bool) \<Rightarrow> string \<Rightarrow> pydict \<Rightarrow> pyerror + (pydict \<times> string)" where
  "encode_params pr svc params =
     (if svc = ''ncbiblast'' then
        (case map_of params ''database'' of
           None \<Rightarrow> Inl (KeyError ''database'')
         | Some databaseList \<Rightarrow>
             (let params' = delitem params ''database'';
                  databaseData = concat (map (\<lambda>db. ''&database='' @ db) (iter_val databaseList))
              in Inr (params', urlencode pr params' @ databaseData)))
      else Inr (params, urlencode pr params))"

text \<open>\<^verbatim>\<open>run\<close> (lines 430 to 457). It returns the dictionary too, which it may change.\<close>

definition run :: "'r server \<Rightarrow> pydict \<Rightarrow> 'r session \<Rightarrow> (pyerror + string) \<times> pydict \<times> 'r session" where
  "run srv params s =
     (case service s of
        None \<Rightarrow> (Inl (RuntimeError ''No service specified''), params, s)
      | Some svc \<Rightarrow>
          (case isLocked srv s of
             (Inl e, s1) \<Rightarrow> (Inl e, params, s1)
           | (Inr True, s1) \<Rightarrow>
               (case jobId s1 of
                  None \<Rightarrow> (Inl (AttributeError ''jobId''), params, s1)
                | Some j \<Rightarrow> (Inl (RuntimeError (running_msg svc j)), params, s1))
           | (Inr False, s1) \<Rightarrow>
               (case encode_params (isprintable s) svc params of
                  Inl e \<Rightarrow> (Inl e, params, s1)
                | Inr (params', encodedParams) \<Rightarrow>
                    (case urlopen srv (Post (ebiServiceUrl @ svc @ ''/run/'') encodedParams) s1 of
                       (Inl e, s2) \<Rightarrow> (Inl e, params', s2)
                     | (Inr j, s2) \<Rightarrow>
                         (case createLock (s2\<lparr>jobId := Some j\<rparr>) of
                            (Inl e, s3) \<Rightarrow> (Inl e, params', s3)
                          | (Inr _, s3) \<Rightarrow> (Inr j, params', s3))))))"

subsection \<open>Fetching a result\<close>

definition result_url :: "string \<Rightarrow> string \<Rightarrow> string \<Rightarrow> string" where
  "result_url svc j resultType = ebiServiceUrl @ svc @ ''/result/'' @ j @ ''/'' @ resultType"

definition unknown_msg :: string where
  "unknown_msg = ''An unknown error occurred while processing the job (check your input)''"

text \<open>
  \<^verbatim>\<open>result\<close> (lines 474 to 492). Only \<^verbatim>\<open>HTTPError\<close> is caught. After the recursive
  call for the type \<^verbatim>\<open>error\<close> the code reads the local \<^verbatim>\<open>result\<close>, which was never
  assigned on that path.
\<close>

function result :: "'r server \<Rightarrow> string \<Rightarrow> 'r session \<Rightarrow> (pyerror + string) \<times> 'r session" where
  "result srv resultType s =
     (case service s of
        None \<Rightarrow> (Inl TypeError, s)
      | Some svc \<Rightarrow>
          (case jobId s of
             None \<Rightarrow> (Inl (AttributeError ''jobId''), s)
           | Some j \<Rightarrow>
               (case urlopen srv (Get (result_url svc j resultType)) s of
                  (Inr r, s1) \<Rightarrow>
                    if resultType = ''error''
                    then (Inl (RuntimeError (''An error occurred: '' @ r)), s1)
                    else (Inr r, s1)
                | (Inl e, s1) \<Rightarrow>
                    if e = HTTPError then
                      (if resultType = ''error'' then (Inl (RuntimeError unknown_msg), s1)
                       else (case result srv ''error'' s1 of
                               (Inl e', s2) \<Rightarrow> (Inl e', s2)
                             | (Inr _, s2) \<Rightarrow> (Inl (UnboundLocalError ''result''), s2)))
                    else (Inl e, s1))))"
  by pat_completeness auto
termination
  by (relation "measure (\<lambda>(srv, resultType, s). if resultType = ''error'' then 0 else 1)") auto

declare result.simps [simp del]

subsection \<open>Submitting and waiting\<close>

text \<open>
  The loop of \<^verbatim>\<open>submit\<close> (lines 503 to 506), with its variables \<^verbatim>\<open>status\<close> and
  \<^verbatim>\<open>observe\<close>. Nothing bounds the number of rounds, so the loop is a partial function:
  \<open>None\<close> is the loop that never ends.
\<close>

partial_function (option) submit_loop ::
  "'r server \<Rightarrow> string \<Rightarrow> nat \<Rightarrow> 'r session \<Rightarrow> ((pyerror + string) \<times> 'r session) option" where
  "submit_loop srv st observe s =
     (if st = ''RUNNING'' then
        (case status srv None s of
           (Inl e, s1) \<Rightarrow> Some (Inl e, s1)
         | (Inr st', s1) \<Rightarrow> submit_loop srv st' (observe + 1) (sleep checkInterval s1))
      else Some (Inr st, s))"

declare submit_loop.simps [code]

text \<open>The loop over the requested result types (lines 513 to 515).\<close>

fun fetch_results ::
  "'r server \<Rightarrow> string list \<Rightarrow> string list \<Rightarrow> 'r session \<Rightarrow> (pyerror + string list) \<times> 'r session" where
  "fetch_results srv [] results s = (Inr results, s)"
| "fetch_results srv (resultType # rest) results s =
     (case result srv resultType s of
        (Inl e, s1) \<Rightarrow> (Inl e, s1)
      | (Inr r, s1) \<Rightarrow> fetch_results srv rest (results @ [r]) s1)"

text \<open>Lines 511 and 512: a value that is not a list becomes a list of one element.\<close>

definition as_list :: "pyval \<Rightarrow> string list" where
  "as_list resultTypes = (case resultTypes of Lst l \<Rightarrow> l | Str t \<Rightarrow> [t])"

text \<open>What \<^verbatim>\<open>submit\<close> does once the loop has ended with a status (lines 507 to 519).\<close>

definition finish :: "'r server \<Rightarrow> pyval \<Rightarrow> string \<Rightarrow> 'r session \<Rightarrow> (pyerror + pyval) \<times> 'r session" where
  "finish srv resultTypes st s =
     (if st \<noteq> ''FINISHED''
      then (Inl (RuntimeError ''An error occurred and the job could not be completed''), s)
      else
        (case removeLock s of
           (Inl e, s1) \<Rightarrow> (Inl e, s1)
         | (Inr _, s1) \<Rightarrow>
             (case fetch_results srv (as_list resultTypes) [] s1 of
                (Inl e, s2) \<Rightarrow> (Inl e, s2)
              | (Inr results, s2) \<Rightarrow>
                  (Inr (if length results = 1 then Str (results ! 0) else Lst results), s2))))"

text \<open>\<^verbatim>\<open>submit\<close> (lines 494 to 519).\<close>

definition submit ::
  "'r server \<Rightarrow> pydict \<Rightarrow> pyval \<Rightarrow> 'r session \<Rightarrow> ((pyerror + pyval) \<times> pydict \<times> 'r session) option" where
  "submit srv params resultTypes s =
     (case run srv (setitem params ''email'' (Str email)) s of
        (Inl e, params', s1) \<Rightarrow> Some (Inl e, params', s1)
      | (Inr _, params', s1) \<Rightarrow>
          (case submit_loop srv ''RUNNING'' 0 s1 of
             None \<Rightarrow> None
           | Some (Inl e, s2) \<Rightarrow> Some (Inl e, params', s2)
           | Some (Inr st, s2) \<Rightarrow>
               (case finish srv resultTypes st s2 of
                  (r, s3) \<Rightarrow> Some (r, params', s3))))"

subsection \<open>Observations used in the statements\<close>

text \<open>The intervals slept, in order.\<close>

fun sleeps :: "event list \<Rightarrow> nat list" where
  "sleeps [] = []"
| "sleeps (Sleep n # es) = n # sleeps es"
| "sleeps (e # es) = sleeps es"

text \<open>The requests sent, in order.\<close>

fun requests :: "event list \<Rightarrow> request list" where
  "requests [] = []"
| "requests (Urlopen q # es) = q # requests es"
| "requests (e # es) = requests es"

text \<open>How often a pattern occurs in a text.\<close>

fun count_sub :: "string \<Rightarrow> string \<Rightarrow> nat" where
  "count_sub pat [] = (if pat = [] then 1 else 0)"
| "count_sub pat (c # cs) =
     (if take (length pat) (c # cs) = pat then 1 else 0) + count_sub pat cs"

text \<open>
  The state of the remote service before the \<open>n\<close>-th status query for a job (counting
  from 0) when nothing but status queries reaches it, and its answer to that query.
\<close>

primrec poll_state :: "'r server \<Rightarrow> string \<Rightarrow> 'r \<Rightarrow> nat \<Rightarrow> 'r" where
  "poll_state srv url r 0 = r"
| "poll_state srv url r (Suc n) = snd (srv (poll_state srv url r n) (Get url))"

definition poll_reply :: "'r server \<Rightarrow> string \<Rightarrow> 'r \<Rightarrow> nat \<Rightarrow> response" where
  "poll_reply srv url r n = fst (srv (poll_state srv url r n) (Get url))"

text \<open>The answers of the remote service to a sequence of requests.\<close>

fun replies :: "'r server \<Rightarrow> 'r \<Rightarrow> request list \<Rightarrow> response list" where
  "replies srv r [] = []"
| "replies srv r (q # qs) = fst (srv r q) # replies srv (snd (srv r q)) qs"

subsection \<open>A scripted remote service\<close>

text \<open>
  The strings of the scenarios below are ASCII, for which \<^verbatim>\<open>repr\<close> never consults the
  table of printable characters. Their table calls no character from 128 on printable.
\<close>

definition ascii_only :: "nat \<Rightarrow> bool" where
  "ascii_only n = False"

text \<open>
  A remote service for one job of one tool: a submission is answered with the job
  identifier, a status query with the next status of a script (the state of the service
  is the rest of the script), a result query with the content listed for that type.
  Every other request fails with an HTTP error.
\<close>

definition mock_remote :: "string \<Rightarrow> string \<Rightarrow> (string \<times> string) list \<Rightarrow> (string list) server" where
  "mock_remote svc j results sts req =
     (case req of
        Post url body \<Rightarrow>
          if url = ebiServiceUrl @ svc @ ''/run/'' then (Body j, sts) else (HTTPFail, sts)
      | Get url \<Rightarrow>
          if url = status_url svc j then
            (case sts of [] \<Rightarrow> (HTTPFail, []) | st # rest \<Rightarrow> (Body st, rest))
          else
            (case map_of (map (\<lambda>(t, c). (result_url svc j t, c)) results) url of
               Some c \<Rightarrow> (Body c, sts)
             | None \<Rightarrow> (HTTPFail, sts)))"

text \<open>
  The scenario of the specification: service \<^verbatim>\<open>demo\<close>, parameters
  \<^verbatim>\<open>{"query": "abc"}\<close>, job \<^verbatim>\<open>job-1\<close>, statuses RUNNING, RUNNING, FINISHED,
  result type \<^verbatim>\<open>out\<close> with content \<^verbatim>\<open>ok\<close>, no lock file at the start.
\<close>

definition demo_remote :: "(string list) server" where
  "demo_remote = mock_remote ''demo'' ''job-1'' [(''out'', ''ok'')]"

definition demo_run :: "((pyerror + pyval) \<times> pydict \<times> (string list) session) option" where
  "demo_run =
     submit demo_remote [(''query'', Str ''abc'')] (Str ''out'')
       (EBI_init (Some ''demo'') ascii_only Map.empty [''RUNNING'', ''RUNNING'', ''FINISHED''])"

text \<open>A remote service that cannot be reached: every request ends in a \<^verbatim>\<open>URLError\<close>.\<close>

definition down_remote :: "unit server" where
  "down_remote r req = (NetFail, r)"

text \<open>A remote service that answers every request with the status RUNNING.\<close>

definition busy_remote :: "unit server" where
  "busy_remote r req = (Body ''RUNNING'', r)"

section \<open>Properties\<close>

subsection \<open>Facts about the single methods\<close>

lemma urlopen_state:
  "urlopen srv req s = (x, s') \<Longrightarrow>
   s' = s\<lparr>remote := snd (srv (remote s) req), trace := trace s @ [Urlopen req]\<rparr>"
  by (auto simp: urlopen_def Let_def split: prod.splits response.splits)

lemma isLocked_no_lock:
  "files s (lockFile s) = None \<Longrightarrow> isLocked srv s = (Inr False, s)"
  by (simp add: isLocked_def)

lemma universal_newlines_id:
  "CHR 0x0D \<notin> set cs \<Longrightarrow> universal_newlines cs = cs"
  by (induction cs rule: universal_newlines.induct) auto

lemma isLocked_running:
  assumes "service s = Some svc" and "files s (lockFile s) = Some content"
    and "srv (remote s) (Get (status_url svc (universal_newlines content)))
           = (Body ''RUNNING'', r')"
  shows "isLocked srv s =
    (Inr True,
     s\<lparr>remote := r',
       trace := trace s @ [Urlopen (Get (status_url svc (universal_newlines content)))],
       jobId := Some (universal_newlines content)\<rparr>)"
  using assms by (simp add: isLocked_def status_def urlopen_def Let_def)

lemma isLocked_stale:
  assumes "service s = Some svc" and "files s (lockFile s) = Some content"
    and "srv (remote s) (Get (status_url svc (universal_newlines content))) = (Body st, r')"
    and "st \<noteq> ''RUNNING''"
  shows "isLocked srv s =
    (Inr False,
     s\<lparr>remote := r',
       trace := trace s @ [Urlopen (Get (status_url svc (universal_newlines content))),
                           Remove (lockFile s)],
       files := (files s)(lockFile s := None)\<rparr>)"
  using assms by (simp add: isLocked_def status_def urlopen_def removeLock_def Let_def)

lemma run_locked:
  assumes "service s = Some svc" and "files s (lockFile s) = Some content"
    and "srv (remote s) (Get (status_url svc (universal_newlines content)))
           = (Body ''RUNNING'', r')"
  shows "run srv params s =
    (Inl (RuntimeError (running_msg svc (universal_newlines content))), params,
     s\<lparr>remote := r',
       trace := trace s @ [Urlopen (Get (status_url svc (universal_newlines content)))],
       jobId := Some (universal_newlines content)\<rparr>)"
  using assms(1) by (simp add: run_def isLocked_running [where srv=srv and s=s, OF assms])

subsection \<open>The scenario of the specification\<close>

text \<open>
  Claim C1, as the code has it. In the scenario (service demo, parameters query = abc,
  job identifier job-1, statuses RUNNING, RUNNING, FINISHED, content ok for the result
  type out) \<open>submit\<close> returns the single value ok; it writes the lock file after the
  submission and removes it before it fetches the result, so that no lock file is left;
  and it sleeps the poll interval of 2 after every status query, the last one included:
  three sleeps, not two.
\<close>

theorem demo_scenario:
  "map_option fst demo_run = Some (Inr (Str ''ok''))
   \<and> map_option (trace \<circ> snd \<circ> snd) demo_run = Some
       [Urlopen (Post ''http://www.ebi.ac.uk/Tools/services/rest/demo/run/''
                   ''query=abc&email=anon%40uq.edu.au''),
        Write ''demo.lock'' ''job-1'',
        Urlopen (Get ''http://www.ebi.ac.uk/Tools/services/rest/demo/status/job-1''),
        Sleep 2,
        Urlopen (Get ''http://www.ebi.ac.uk/Tools/services/rest/demo/status/job-1''),
        Sleep 2,
        Urlopen (Get ''http://www.ebi.ac.uk/Tools/services/rest/demo/status/job-1''),
        Sleep 2,
        Remove ''demo.lock'',
        Urlopen (Get ''http://www.ebi.ac.uk/Tools/services/rest/demo/result/job-1/out'')]
   \<and> map_option (\<lambda>(r, p, s). files s (lockFile s)) demo_run = Some None"
  by code_simp

text \<open>
  Claim C1 as stated fails: the number of sleeps in the scenario is three, since the loop
  sleeps once more after the query that returned FINISHED.
\<close>

theorem demo_sleeps_counterexample:
  "map_option (length \<circ> sleeps \<circ> trace \<circ> snd \<circ> snd) demo_run = Some 3"
  by code_simp

subsection \<open>Inspecting the lock\<close>

text \<open>
  Claim C3. Without a lock file \<open>isLocked\<close> returns False and changes nothing. With a
  lock file, the job identifier is the content of the file as a text read returns it
  (\<open>universal_newlines\<close>; the content itself when it holds no carriage return). When the
  remote service reports RUNNING for that identifier, \<open>isLocked\<close> returns True and
  \<open>jobId\<close> is that identifier; when the service reports any other status, the lock file
  is removed and \<open>isLocked\<close> returns False.
\<close>

theorem isLocked_outcomes:
  "(files s (lockFile s) = None \<longrightarrow> isLocked srv s = (Inr False, s))
   \<and> (service s = Some svc \<and> files s (lockFile s) = Some content
        \<and> srv (remote s) (Get (status_url svc (universal_newlines content)))
              = (Body ''RUNNING'', r')
      \<longrightarrow> isLocked srv s =
            (Inr True,
             s\<lparr>remote := r',
               trace := trace s @ [Urlopen (Get (status_url svc (universal_newlines content)))],
               jobId := Some (universal_newlines content)\<rparr>))
   \<and> (service s = Some svc \<and> files s (lockFile s) = Some content
        \<and> srv (remote s) (Get (status_url svc (universal_newlines content))) = (Body st, r')
        \<and> st \<noteq> ''RUNNING''
      \<longrightarrow> isLocked srv s =
            (Inr False,
             s\<lparr>remote := r',
               trace := trace s @ [Urlopen (Get (status_url svc (universal_newlines content))),
                                   Remove (lockFile s)],
               files := (files s)(lockFile s := None)\<rparr>))
   \<and> (CHR 0x0D \<notin> set content \<longrightarrow> universal_newlines content = content)"
proof (intro conjI impI)
  assume "files s (lockFile s) = None"
  then show "isLocked srv s = (Inr False, s)" by (rule isLocked_no_lock)
next
  assume "service s = Some svc \<and> files s (lockFile s) = Some content
        \<and> srv (remote s) (Get (status_url svc (universal_newlines content)))
              = (Body ''RUNNING'', r')"
  then show "isLocked srv s =
            (Inr True,
             s\<lparr>remote := r',
               trace := trace s @ [Urlopen (Get (status_url svc (universal_newlines content)))],
               jobId := Some (universal_newlines content)\<rparr>)"
    using isLocked_running [where s = s and svc = svc and content = content and srv = srv
        and r' = r']
    by simp
next
  assume "service s = Some svc \<and> files s (lockFile s) = Some content
        \<and> srv (remote s) (Get (status_url svc (universal_newlines content))) = (Body st, r')
        \<and> st \<noteq> ''RUNNING''"
  then show "isLocked srv s =
            (Inr False,
             s\<lparr>remote := r',
               trace := trace s @ [Urlopen (Get (status_url svc (universal_newlines content))),
                                   Remove (lockFile s)],
               files := (files s)(lockFile s := None)\<rparr>)"
    using isLocked_stale [where s = s and svc = svc and content = content and srv = srv
        and st = st and r' = r']
    by simp
next
  assume "CHR 0x0D \<notin> set content"
  then show "universal_newlines content = content" by (rule universal_newlines_id)
qed

theorem isLocked_outcomes_witness:
  "isLocked demo_remote (EBI_init (Some ''demo'') ascii_only Map.empty []) =
     (Inr False, EBI_init (Some ''demo'') ascii_only Map.empty [])
   \<and> fst (isLocked demo_remote
          (EBI_init (Some ''demo'') ascii_only [''demo.lock'' \<mapsto> ''job-1''] [''RUNNING'']))
       = Inr True
   \<and> fst (isLocked demo_remote
          (EBI_init (Some ''demo'') ascii_only [''demo.lock'' \<mapsto> ''job-1''] [''FINISHED'']))
       = Inr False
   \<and> jobId (snd (isLocked (mock_remote ''demo'' (''job-1'' @ [CHR 0x0A]) [])
          (EBI_init (Some ''demo'') ascii_only
             [''demo.lock'' \<mapsto> ''job-1'' @ [CHR 0x0D, CHR 0x0A]] [''RUNNING''])))
       = Some (''job-1'' @ [CHR 0x0A])"
proof -
  let ?a = "EBI_init (Some ''demo'') ascii_only Map.empty [] :: (string list) session"
  let ?b = "EBI_init (Some ''demo'') ascii_only [''demo.lock'' \<mapsto> ''job-1''] [''RUNNING'']"
  let ?c = "EBI_init (Some ''demo'') ascii_only [''demo.lock'' \<mapsto> ''job-1''] [''FINISHED'']"
  let ?d = "EBI_init (Some ''demo'') ascii_only
             [''demo.lock'' \<mapsto> ''job-1'' @ [CHR 0x0D, CHR 0x0A]] [''RUNNING'']"
  let ?m = "mock_remote ''demo'' (''job-1'' @ [CHR 0x0A]) []"
  have a: "files ?a (lockFile ?a) = None"
    by (simp add: EBI_init_def)
  have b: "service ?b = Some ''demo'' \<and> files ?b (lockFile ?b) = Some ''job-1''
      \<and> demo_remote (remote ?b) (Get (status_url ''demo'' (universal_newlines ''job-1'')))
          = (Body ''RUNNING'', [])"
    by (simp add: EBI_init_def str_opt_def demo_remote_def mock_remote_def)
  have c: "service ?c = Some ''demo'' \<and> files ?c (lockFile ?c) = Some ''job-1''
      \<and> demo_remote (remote ?c) (Get (status_url ''demo'' (universal_newlines ''job-1'')))
          = (Body ''FINISHED'', [])
      \<and> ''FINISHED'' \<noteq> ''RUNNING''"
    by (simp add: EBI_init_def str_opt_def demo_remote_def mock_remote_def)
  have d: "service ?d = Some ''demo''
      \<and> files ?d (lockFile ?d) = Some (''job-1'' @ [CHR 0x0D, CHR 0x0A])
      \<and> ?m (remote ?d)
            (Get (status_url ''demo'' (universal_newlines (''job-1'' @ [CHR 0x0D, CHR 0x0A]))))
          = (Body ''RUNNING'', [])"
    by (simp add: EBI_init_def str_opt_def mock_remote_def)
  have n: "universal_newlines (''job-1'' @ [CHR 0x0D, CHR 0x0A]) = ''job-1'' @ [CHR 0x0A]"
    by simp
  show ?thesis
    using a b c d n
      isLocked_outcomes [where s = ?a and srv = demo_remote]
      isLocked_outcomes [where s = ?b and srv = demo_remote and svc = "''demo''"
        and content = "''job-1''" and r' = "[]"]
      isLocked_outcomes [where s = ?c and srv = demo_remote and svc = "''demo''"
        and content = "''job-1''" and st = "''FINISHED''" and r' = "[]"]
      isLocked_outcomes [where s = ?d and srv = ?m and svc = "''demo''"
        and content = "''job-1'' @ [CHR 0x0D, CHR 0x0A]" and r' = "[]"]
    by simp
qed

subsection \<open>Submission while a job is running\<close>

text \<open>
  Claim C4. When the lock file of the service exists and the remote service reports
  RUNNING for the job identifier read from it, \<open>run\<close> fails with the error whose message
  names the service and the running job and tells where to check its status. The address
  in the message is the root of the services followed by \<^verbatim>\<open>status/\<close> and the job
  identifier; it does not hold the name of the service, unlike the address that \<open>status\<close>
  queries. The only request of the call is that status query: nothing is sent to the
  submission address, the caller's parameters are untouched, and \<open>jobId\<close> is the
  identifier read from the file.
\<close>

theorem run_while_locked:
  assumes "service s = Some svc" and "files s (lockFile s) = Some content"
    and "srv (remote s)
           (Get (''http://www.ebi.ac.uk/Tools/services/rest/'' @ svc @ ''/status/''
                 @ universal_newlines content))
         = (Body ''RUNNING'', r')"
  shows "run srv params s =
    (Inl (RuntimeError
       (''You currently have a '' @ svc @ '' job running. You must'' @ [CHR 0x0A]
        @ replicate 34 (CHR '' '')
        @ ''wait until it is complete before submitting another job. Go to'' @ [CHR 0x0A]
        @ replicate 34 (CHR '' '')
        @ ''http://www.ebi.ac.uk/Tools/services/rest/status/'' @ universal_newlines content
        @ '' to check the status of the job.'')),
     params,
     s\<lparr>remote := r',
       trace := trace s @
         [Urlopen (Get (''http://www.ebi.ac.uk/Tools/services/rest/'' @ svc @ ''/status/''
                        @ universal_newlines content))],
       jobId := Some (universal_newlines content)\<rparr>)"
proof -
  have u: "status_url svc (universal_newlines content)
      = ''http://www.ebi.ac.uk/Tools/services/rest/'' @ svc @ ''/status/''
        @ universal_newlines content"
    by (simp add: status_url_def ebiServiceUrl_def)
  have m: "running_msg svc (universal_newlines content)
      = ''You currently have a '' @ svc @ '' job running. You must'' @ [CHR 0x0A]
        @ replicate 34 (CHR '' '')
        @ ''wait until it is complete before submitting another job. Go to'' @ [CHR 0x0A]
        @ replicate 34 (CHR '' '')
        @ ''http://www.ebi.ac.uk/Tools/services/rest/status/'' @ universal_newlines content
        @ '' to check the status of the job.''"
    by (simp add: running_msg_def ebiServiceUrl_def)
  show ?thesis
    using run_locked [where srv = srv and s = s and params = params, OF assms(1,2)]
      assms(3)
    unfolding u m by simp
qed

theorem run_while_locked_witness:
  "fst (run demo_remote [(''query'', Str ''abc'')]
         (EBI_init (Some ''demo'') ascii_only [''demo.lock'' \<mapsto> ''job-1''] [''RUNNING'']))
     = Inl (RuntimeError (running_msg ''demo'' ''job-1''))
   \<and> trace (snd (snd (run demo_remote [(''query'', Str ''abc'')]
         (EBI_init (Some ''demo'') ascii_only [''demo.lock'' \<mapsto> ''job-1''] [''RUNNING'']))))
     = [Urlopen (Get ''http://www.ebi.ac.uk/Tools/services/rest/demo/status/job-1'')]"
proof -
  let ?b = "EBI_init (Some ''demo'') ascii_only [''demo.lock'' \<mapsto> ''job-1''] [''RUNNING'']"
  have h1: "service ?b = Some ''demo''"
    by (simp add: EBI_init_def)
  have h2: "files ?b (lockFile ?b) = Some ''job-1''"
    by (simp add: EBI_init_def str_opt_def)
  have h3: "demo_remote (remote ?b)
      (Get (''http://www.ebi.ac.uk/Tools/services/rest/'' @ ''demo'' @ ''/status/''
            @ universal_newlines ''job-1''))
      = (Body ''RUNNING'', [])"
    by (simp add: EBI_init_def demo_remote_def mock_remote_def status_url_def ebiServiceUrl_def)
  show ?thesis
    using run_while_locked [where srv = demo_remote and s = ?b, OF h1 h2 h3]
    by (simp add: EBI_init_def running_msg_def ebiServiceUrl_def)
qed

subsection \<open>Fetching a result that fails\<close>

lemma result_error_ok:
  assumes "service s = Some svc" and "jobId s = Some j"
    and "srv (remote s) (Get (result_url svc j ''error'')) = (Body d, r1)"
  shows "result srv ''error'' s =
    (Inl (RuntimeError (''An error occurred: '' @ d)),
     s\<lparr>remote := r1, trace := trace s @ [Urlopen (Get (result_url svc j ''error''))]\<rparr>)"
  using assms by (subst result.simps) (simp add: urlopen_def)

lemma result_error_fail:
  assumes "service s = Some svc" and "jobId s = Some j"
    and "srv (remote s) (Get (result_url svc j ''error'')) = (HTTPFail, r1)"
  shows "result srv ''error'' s =
    (Inl (RuntimeError unknown_msg),
     s\<lparr>remote := r1, trace := trace s @ [Urlopen (Get (result_url svc j ''error''))]\<rparr>)"
  using assms by (subst result.simps) (simp add: urlopen_def)

lemma result_error_Inl: "\<exists>e. fst (result srv ''error'' s) = Inl e"
  by (subst result.simps) (simp split: option.splits prod.splits sum.splits)

lemma result_recurse:
  assumes "service s = Some svc" and "jobId s = Some j" and "resultType \<noteq> ''error''"
    and "srv (remote s) (Get (result_url svc j resultType)) = (HTTPFail, r1)"
  shows "result srv resultType s =
    result srv ''error''
      (s\<lparr>remote := r1, trace := trace s @ [Urlopen (Get (result_url svc j resultType))]\<rparr>)"
proof -
  let ?s1 = "s\<lparr>remote := r1, trace := trace s @ [Urlopen (Get (result_url svc j resultType))]\<rparr>"
  obtain e s2 where e: "result srv ''error'' ?s1 = (Inl e, s2)"
    using result_error_Inl [of srv ?s1] by (cases "result srv ''error'' ?s1") auto
  have "result srv resultType s =
      (case result srv ''error'' ?s1 of
         (Inl e', s2) \<Rightarrow> (Inl e', s2)
       | (Inr _, s2) \<Rightarrow> (Inl (UnboundLocalError ''result''), s2))"
    using assms by (subst result.simps) (simp add: urlopen_def)
  then show ?thesis by (simp add: e)
qed

lemma result_ok:
  assumes "service s = Some svc" and "jobId s = Some j" and "resultType \<noteq> ''error''"
    and "srv (remote s) (Get (result_url svc j resultType)) = (Body d, r1)"
  shows "result srv resultType s =
    (Inr d, s\<lparr>remote := r1, trace := trace s @ [Urlopen (Get (result_url svc j resultType))]\<rparr>)"
  using assms by (subst result.simps) (simp add: urlopen_def)

lemma result_netfail:
  assumes "service s = Some svc" and "jobId s = Some j"
    and "srv (remote s) (Get (result_url svc j resultType)) = (NetFail, r1)"
  shows "result srv resultType s =
    (Inl URLError,
     s\<lparr>remote := r1, trace := trace s @ [Urlopen (Get (result_url svc j resultType))]\<rparr>)"
  using assms by (subst result.simps) (simp add: urlopen_def)

text \<open>
  Claim C2, as the code has it. For a session with a service and a job identifier:
  when the call for a type other than error fails with an HTTP error (the
  \<^verbatim>\<open>HTTPError\<close> that \<open>result\<close> catches), \<open>result\<close> requests the type error from the
  state the failed call left and ends as that request ends, that is with the error that
  carries the diagnostic content when the service returns one, and with the
  unknown-failure error when that call fails with an HTTP error too; when the call for
  the type error fails with an HTTP error, \<open>result\<close> raises the unknown-failure error;
  when the call for the type error succeeds, its content is raised as an error and not
  returned. A transport failure of any other kind (a \<^verbatim>\<open>URLError\<close> that is no
  \<^verbatim>\<open>HTTPError\<close>) is not caught: it leaves \<open>result\<close> as it is, for every type, after
  the one request, and the type error is not requested.
\<close>

theorem result_failures:
  assumes "service s = Some svc" and "jobId s = Some j"
  shows
    "(resultType \<noteq> ''error''
        \<and> srv (remote s) (Get (result_url svc j resultType)) = (HTTPFail, r1)
      \<longrightarrow> result srv resultType s =
            result srv ''error''
              (s\<lparr>remote := r1,
                 trace := trace s @ [Urlopen (Get (result_url svc j resultType))]\<rparr>))
     \<and> (resultType \<noteq> ''error''
        \<and> srv (remote s) (Get (result_url svc j resultType)) = (HTTPFail, r1)
        \<and> srv r1 (Get (result_url svc j ''error'')) = (Body d, r2)
      \<longrightarrow> fst (result srv resultType s) = Inl (RuntimeError (''An error occurred: '' @ d)))
     \<and> (resultType \<noteq> ''error''
        \<and> srv (remote s) (Get (result_url svc j resultType)) = (HTTPFail, r1)
        \<and> srv r1 (Get (result_url svc j ''error'')) = (HTTPFail, r2)
      \<longrightarrow> fst (result srv resultType s) = Inl (RuntimeError unknown_msg))
     \<and> (srv (remote s) (Get (result_url svc j ''error'')) = (HTTPFail, r1)
      \<longrightarrow> fst (result srv ''error'' s) = Inl (RuntimeError unknown_msg))
     \<and> (srv (remote s) (Get (result_url svc j ''error'')) = (Body d, r1)
      \<longrightarrow> fst (result srv ''error'' s) = Inl (RuntimeError (''An error occurred: '' @ d)))
     \<and> (srv (remote s) (Get (result_url svc j resultType)) = (NetFail, r1)
      \<longrightarrow> result srv resultType s =
            (Inl URLError,
             s\<lparr>remote := r1,
               trace := trace s @ [Urlopen (Get (result_url svc j resultType))]\<rparr>))"
proof (intro conjI impI)
  assume h: "resultType \<noteq> ''error''
        \<and> srv (remote s) (Get (result_url svc j resultType)) = (HTTPFail, r1)"
  then show "result srv resultType s =
            result srv ''error''
              (s\<lparr>remote := r1,
                 trace := trace s @ [Urlopen (Get (result_url svc j resultType))]\<rparr>)"
    using result_recurse [where srv = srv and s = s, OF assms] by simp
next
  let ?s1 = "s\<lparr>remote := r1, trace := trace s @ [Urlopen (Get (result_url svc j resultType))]\<rparr>"
  assume h: "resultType \<noteq> ''error''
        \<and> srv (remote s) (Get (result_url svc j resultType)) = (HTTPFail, r1)
        \<and> srv r1 (Get (result_url svc j ''error'')) = (Body d, r2)"
  then have "result srv resultType s = result srv ''error'' ?s1"
    using result_recurse [where srv = srv and s = s, OF assms] by simp
  moreover have "fst (result srv ''error'' ?s1) = Inl (RuntimeError (''An error occurred: '' @ d))"
    using h assms result_error_ok [where srv = srv and s = ?s1 and svc = svc and j = j and d = d and ?r1.0 = r2]
    by simp
  ultimately show "fst (result srv resultType s) = Inl (RuntimeError (''An error occurred: '' @ d))"
    by simp
next
  let ?s1 = "s\<lparr>remote := r1, trace := trace s @ [Urlopen (Get (result_url svc j resultType))]\<rparr>"
  assume h: "resultType \<noteq> ''error''
        \<and> srv (remote s) (Get (result_url svc j resultType)) = (HTTPFail, r1)
        \<and> srv r1 (Get (result_url svc j ''error'')) = (HTTPFail, r2)"
  then have "result srv resultType s = result srv ''error'' ?s1"
    using result_recurse [where srv = srv and s = s, OF assms] by simp
  moreover have "fst (result srv ''error'' ?s1) = Inl (RuntimeError unknown_msg)"
    using h assms result_error_fail [where srv = srv and s = ?s1 and svc = svc and j = j and ?r1.0 = r2]
    by simp
  ultimately show "fst (result srv resultType s) = Inl (RuntimeError unknown_msg)"
    by simp
next
  assume "srv (remote s) (Get (result_url svc j ''error'')) = (HTTPFail, r1)"
  then show "fst (result srv ''error'' s) = Inl (RuntimeError unknown_msg)"
    using result_error_fail [where srv = srv and s = s, OF assms] by simp
next
  assume "srv (remote s) (Get (result_url svc j ''error'')) = (Body d, r1)"
  then show "fst (result srv ''error'' s) = Inl (RuntimeError (''An error occurred: '' @ d))"
    using result_error_ok [where srv = srv and s = s, OF assms] by simp
next
  assume "srv (remote s) (Get (result_url svc j resultType)) = (NetFail, r1)"
  then show "result srv resultType s =
            (Inl URLError,
             s\<lparr>remote := r1,
               trace := trace s @ [Urlopen (Get (result_url svc j resultType))]\<rparr>)"
    using result_netfail [where srv = srv and s = s, OF assms] by simp
qed

theorem result_failures_witness:
  "fst (result (mock_remote ''demo'' ''job-1'' [(''error'', ''bad query'')]) ''html''
         ((EBI_init (Some ''demo'') ascii_only Map.empty [])\<lparr>jobId := Some ''job-1''\<rparr>))
     = Inl (RuntimeError ''An error occurred: bad query'')
   \<and> fst (result (mock_remote ''demo'' ''job-1'' []) ''html''
         ((EBI_init (Some ''demo'') ascii_only Map.empty [])\<lparr>jobId := Some ''job-1''\<rparr>))
     = Inl (RuntimeError unknown_msg)
   \<and> fst (result (mock_remote ''demo'' ''job-1'' []) ''error''
         ((EBI_init (Some ''demo'') ascii_only Map.empty [])\<lparr>jobId := Some ''job-1''\<rparr>))
     = Inl (RuntimeError unknown_msg)
   \<and> fst (result (mock_remote ''demo'' ''job-1'' [(''error'', ''bad query'')]) ''error''
         ((EBI_init (Some ''demo'') ascii_only Map.empty [])\<lparr>jobId := Some ''job-1''\<rparr>))
     = Inl (RuntimeError ''An error occurred: bad query'')
   \<and> fst (result down_remote ''html''
         ((EBI_init (Some ''demo'') ascii_only Map.empty ())\<lparr>jobId := Some ''job-1''\<rparr>))
     = Inl URLError"
proof -
  let ?u = "(EBI_init (Some ''demo'') ascii_only Map.empty ())\<lparr>jobId := Some ''job-1''\<rparr>"
  have u: "service ?u = Some ''demo''" "jobId ?u = Some ''job-1''"
    by (simp_all add: EBI_init_def)
  have down: "down_remote (remote ?u) (Get (result_url ''demo'' ''job-1'' ''html'')) = (NetFail, ())"
    by (simp add: down_remote_def)
  have w5: "fst (result down_remote ''html'' ?u) = Inl URLError"
    using down result_failures [where srv = down_remote and s = ?u and resultType = "''html''"
        and ?r1.0 = "()", OF u]
    by simp
  let ?s = "(EBI_init (Some ''demo'') ascii_only Map.empty ([] :: string list))\<lparr>jobId := Some ''job-1''\<rparr>"
  let ?bad = "mock_remote ''demo'' ''job-1'' [(''error'', ''bad query'')]"
  let ?none = "mock_remote ''demo'' ''job-1'' []"
  have s: "service ?s = Some ''demo''" "jobId ?s = Some ''job-1''"
    by (simp_all add: EBI_init_def)
  have bad: "''html'' \<noteq> ''error''"
      "?bad (remote ?s) (Get (result_url ''demo'' ''job-1'' ''html'')) = (HTTPFail, [])"
      "?bad [] (Get (result_url ''demo'' ''job-1'' ''error'')) = (Body ''bad query'', [])"
      "?bad (remote ?s) (Get (result_url ''demo'' ''job-1'' ''error'')) = (Body ''bad query'', [])"
    by (simp_all add: EBI_init_def mock_remote_def result_url_def status_url_def)
  have none: 
      "?none (remote ?s) (Get (result_url ''demo'' ''job-1'' ''html'')) = (HTTPFail, [])"
      "?none [] (Get (result_url ''demo'' ''job-1'' ''error'')) = (HTTPFail, [])"
      "?none (remote ?s) (Get (result_url ''demo'' ''job-1'' ''error'')) = (HTTPFail, [])"
    by (simp_all add: EBI_init_def mock_remote_def result_url_def status_url_def)
  show ?thesis
    using bad none
      result_failures [where srv = ?bad and s = ?s and resultType = "''html''" and d = "''bad query''"
        and ?r1.0 = "[]" and ?r2.0 = "[]", OF s, THEN conjunct2]
      result_failures [where srv = ?none and s = ?s and resultType = "''html''"
        and ?r1.0 = "[]" and ?r2.0 = "[]", OF s, THEN conjunct2]
      w5
    by simp
qed

text \<open>
  Claim C2 as stated fails for a transport failure that is no HTTP error: when the
  service cannot be reached, the fetch of the type html ends in the \<^verbatim>\<open>URLError\<close> itself,
  after one request, and the type error is never requested.
\<close>

theorem result_urlerror_counterexample:
  "fst (result down_remote ''html''
         ((EBI_init (Some ''demo'') ascii_only Map.empty ())\<lparr>jobId := Some ''job-1''\<rparr>))
     = Inl URLError
   \<and> requests (trace (snd (result down_remote ''html''
         ((EBI_init (Some ''demo'') ascii_only Map.empty ())\<lparr>jobId := Some ''job-1''\<rparr>))))
     = [Get ''http://www.ebi.ac.uk/Tools/services/rest/demo/result/job-1/html'']"
  by code_simp

subsection \<open>A successful submission\<close>

lemma requests_app: "requests (es @ fs) = requests es @ requests fs"
  by (induction es rule: requests.induct) simp_all

lemma urlopen_Inr_state:
  "urlopen srv req s = (Inr b, s') \<Longrightarrow>
   fst (srv (remote s) req) = Body b
   \<and> s' = s\<lparr>remote := snd (srv (remote s) req), trace := trace s @ [Urlopen req]\<rparr>"
  by (auto simp: urlopen_def Let_def split: prod.splits response.splits)

lemma isLocked_frame:
  "isLocked srv s = (x, s') \<Longrightarrow> service s' = service s \<and> lockFile s' = lockFile s"
  by (auto simp: isLocked_def status_def removeLock_def Let_def
      split: option.splits prod.splits sum.splits if_splits dest!: urlopen_state)

lemma run_ok_state:
  assumes "run srv params s = (Inr j, params', s')" and "service s = Some svc"
  shows "\<exists>s1 body. isLocked srv s = (Inr False, s1)
           \<and> fst (srv (remote s1) (Post (ebiServiceUrl @ svc @ ''/run/'') body)) = Body j
           \<and> s' = s1\<lparr>remote := snd (srv (remote s1) (Post (ebiServiceUrl @ svc @ ''/run/'') body)),
                     trace := trace s1 @ [Urlopen (Post (ebiServiceUrl @ svc @ ''/run/'') body),
                                          Write (lockFile s1) j],
                     jobId := Some j,
                     files := (files s1)(lockFile s1 \<mapsto> j)\<rparr>"
  using assms
  by (auto simp: run_def createLock_def
      split: option.splits prod.splits sum.splits bool.splits if_splits
      dest!: urlopen_Inr_state)

text \<open>
  Claim C6. When \<open>run\<close> returns a job identifier, for a session whose lock file name is
  the one \<^verbatim>\<open>__init__\<close> derives from the service name: the identifier is the body the
  remote service returned to the submission, it is the session's \<open>jobId\<close>, and the file
  named after the service holds exactly that identifier. The lock file then keeps a
  second job out: another \<open>run\<close> reads the identifier back from the file (as a text
  read returns it: the identifier itself when it holds no carriage return), and as long
  as the remote service reports RUNNING for it, that \<open>run\<close> fails with the job-running
  error and sends nothing but the status query.
\<close>

theorem run_success:
  assumes "run srv params s = (Inr j, params', s')"
    and "service s = Some svc"
    and "lockFile s = str_opt (service s) @ ''.lock''"
  shows "jobId s' = Some j
     \<and> lockFile s' = svc @ ''.lock''
     \<and> files s' (svc @ ''.lock'') = Some j
     \<and> (\<exists>s1 body. isLocked srv s = (Inr False, s1)
           \<and> fst (srv (remote s1) (Post (ebiServiceUrl @ svc @ ''/run/'') body)) = Body j)
     \<and> (srv (remote s') (Get (status_url svc (universal_newlines j))) = (Body ''RUNNING'', r')
          \<longrightarrow> fst (run srv params2 s')
                = Inl (RuntimeError (running_msg svc (universal_newlines j)))
              \<and> requests (trace (snd (snd (run srv params2 s'))))
                  = requests (trace s') @ [Get (status_url svc (universal_newlines j))])
     \<and> (CHR 0x0D \<notin> set j \<longrightarrow> universal_newlines j = j)"
proof -
  obtain s1 body where s1: "isLocked srv s = (Inr False, s1)"
    and j: "fst (srv (remote s1) (Post (ebiServiceUrl @ svc @ ''/run/'') body)) = Body j"
    and s': "s' = s1\<lparr>remote := snd (srv (remote s1) (Post (ebiServiceUrl @ svc @ ''/run/'') body)),
                     trace := trace s1 @ [Urlopen (Post (ebiServiceUrl @ svc @ ''/run/'') body),
                                          Write (lockFile s1) j],
                     jobId := Some j,
                     files := (files s1)(lockFile s1 \<mapsto> j)\<rparr>"
    using run_ok_state [OF assms(1,2)] by blast
  have fr: "service s1 = Some svc" "lockFile s1 = svc @ ''.lock''"
    using isLocked_frame [OF s1] assms(2,3) by (simp_all add: str_opt_def)
  have a: "jobId s' = Some j" "lockFile s' = svc @ ''.lock''" "files s' (svc @ ''.lock'') = Some j"
    "service s' = Some svc"
    using fr by (simp_all add: s')
  have b: "\<exists>s1 body. isLocked srv s = (Inr False, s1)
           \<and> fst (srv (remote s1) (Post (ebiServiceUrl @ svc @ ''/run/'') body)) = Body j"
    using s1 j by blast
  have c: "fst (run srv params2 s')
                = Inl (RuntimeError (running_msg svc (universal_newlines j)))
              \<and> requests (trace (snd (snd (run srv params2 s'))))
                  = requests (trace s') @ [Get (status_url svc (universal_newlines j))]"
    if h: "srv (remote s') (Get (status_url svc (universal_newlines j))) = (Body ''RUNNING'', r')"
  proof -
    have l: "files s' (lockFile s') = Some j" using a by simp
    show ?thesis
      using run_locked [where srv = srv and s = s' and params = params2, OF a(4) l h]
      by (simp add: requests_app)
  qed
  have d: "universal_newlines j = j" if "CHR 0x0D \<notin> set j"
    using that by (rule universal_newlines_id)
  show ?thesis using a b c d by blast
qed

theorem run_success_witness:
  "fst (run demo_remote [(''query'', Str ''abc'')]
          (EBI_init (Some ''demo'') ascii_only Map.empty [''RUNNING''])) = Inr ''job-1''
   \<and> jobId (snd (snd (run demo_remote [(''query'', Str ''abc'')]
          (EBI_init (Some ''demo'') ascii_only Map.empty [''RUNNING''])))) = Some ''job-1''
   \<and> files (snd (snd (run demo_remote [(''query'', Str ''abc'')]
          (EBI_init (Some ''demo'') ascii_only Map.empty [''RUNNING''])))) ''demo.lock'' = Some ''job-1''
   \<and> fst (run demo_remote [(''query'', Str ''xyz'')]
          (snd (snd (run demo_remote [(''query'', Str ''abc'')]
             (EBI_init (Some ''demo'') ascii_only Map.empty [''RUNNING''])))))
       = Inl (RuntimeError (running_msg ''demo'' ''job-1''))"
proof -
  let ?s = "EBI_init (Some ''demo'') ascii_only Map.empty [''RUNNING'']"
  let ?p = "[(''query'', Str ''abc'')]"
  let ?out = "run demo_remote ?p ?s"
  have r: "fst ?out = Inr ''job-1''"
    by code_simp
  have h1: "?out = (Inr ''job-1'', fst (snd ?out), snd (snd ?out))"
    using r by (metis prod.collapse)
  have h2: "service ?s = Some ''demo''"
    by (simp add: EBI_init_def)
  have h3: "lockFile ?s = str_opt (service ?s) @ ''.lock''"
    by (simp add: EBI_init_def)
  have h4: "demo_remote (remote (snd (snd ?out)))
        (Get (status_url ''demo'' (universal_newlines ''job-1'')))
      = (Body ''RUNNING'', [])"
    by code_simp
  have n: "universal_newlines ''job-1'' = ''job-1''"
    by simp
  show ?thesis
    using r h4 n run_success [where srv = demo_remote and r' = "[]"
        and ?params2.0 = "[(''query'', Str ''xyz'')]", OF h1 h2 h3]
    by simp
qed

subsection \<open>The request body\<close>

lemma encode_ncbiblast:
  assumes "map_of params ''database'' = Some (Lst dbs)"
  shows "encode_params pr ''ncbiblast'' params =
    Inr (delitem params ''database'',
         join ''&'' (map (\<lambda>(k, v). quote_plus k @ ''='' @ quote_plus (str_val pr v))
                      (filter (\<lambda>(k, v). k \<noteq> ''database'') params))
         @ concat (map (\<lambda>db. ''&database='' @ db) dbs))"
proof -
  have "delitem params ''database'' = filter (\<lambda>(k, v). k \<noteq> ''database'') params"
    by (simp add: delitem_def AList.delete_eq case_prod_beta' eq_commute)
  then show ?thesis
    by (simp only: encode_params_def iter_val_def urlencode_def Let_def assms
        option.simps pyval.simps if_True refl)
qed

lemma encode_other:
  assumes "svc \<noteq> ''ncbiblast''"
  shows "encode_params pr svc params =
    Inr (params,
         join ''&'' (map (\<lambda>(k, v). quote_plus k @ ''='' @ quote_plus (str_val pr v)) params))"
  using assms by (simp only: encode_params_def urlencode_def if_False)

lemma run_posts:
  assumes "service s = Some svc" and "isLocked srv s = (Inr False, s1)"
    and "encode_params (isprintable s) svc params = Inr (params', body)"
  shows "requests (trace (snd (snd (run srv params s))))
     = requests (trace s1) @ [Post (ebiServiceUrl @ svc @ ''/run/'') body]"
  using assms
  by (auto simp: run_def createLock_def requests_app
      split: option.splits prod.splits sum.splits bool.splits if_splits
      dest!: urlopen_state)

text \<open>
  Claim C5, as the code has it. When \<open>run\<close> gets past the lock check, the one request it
  sends is the submission. For the service ncbiblast, when the parameters hold a list
  under the key database, the body is: every other parameter once, as an URL-encoded
  pair, joined by \<^verbatim>\<open>&\<close>; then \<^verbatim>\<open>&database=\<close> and the element, once for each element
  of the list, in the order of the list. For every other service the body is every
  parameter once, as an URL-encoded pair, joined by \<^verbatim>\<open>&\<close>: a list under the key
  database is one such pair, its value the list as \<^verbatim>\<open>str\<close> prints it.
\<close>

theorem run_request_body:
  assumes "service s = Some svc" and "isLocked srv s = (Inr False, s1)"
  shows
    "(svc = ''ncbiblast'' \<and> map_of params ''database'' = Some (Lst dbs) \<longrightarrow>
        requests (trace (snd (snd (run srv params s)))) =
        requests (trace s1) @
        [Post (ebiServiceUrl @ ''ncbiblast/run/'')
           (join ''&''
              (map (\<lambda>(k, v). quote_plus k @ ''='' @ quote_plus (str_val (isprintable s) v))
                 (filter (\<lambda>(k, v). k \<noteq> ''database'') params))
            @ concat (map (\<lambda>db. ''&database='' @ db) dbs))])
     \<and> (svc \<noteq> ''ncbiblast'' \<longrightarrow>
        requests (trace (snd (snd (run srv params s)))) =
        requests (trace s1) @
        [Post (ebiServiceUrl @ svc @ ''/run/'')
           (join ''&''
              (map (\<lambda>(k, v). quote_plus k @ ''='' @ quote_plus (str_val (isprintable s) v))
                 params))])
     \<and> str_val (isprintable s) (Lst dbs)
         = ''['' @ join '', '' (map (repr_str (isprintable s)) dbs) @ '']''"
proof (intro conjI impI)
  assume h: "svc = ''ncbiblast'' \<and> map_of params ''database'' = Some (Lst dbs)"
  then have e: "encode_params (isprintable s) svc params =
      Inr (delitem params ''database'',
         join ''&''
           (map (\<lambda>(k, v). quote_plus k @ ''='' @ quote_plus (str_val (isprintable s) v))
              (filter (\<lambda>(k, v). k \<noteq> ''database'') params))
         @ concat (map (\<lambda>db. ''&database='' @ db) dbs))"
    using encode_ncbiblast [of params dbs "isprintable s"] by simp
  show "requests (trace (snd (snd (run srv params s)))) =
        requests (trace s1) @
        [Post (ebiServiceUrl @ ''ncbiblast/run/'')
           (join ''&''
              (map (\<lambda>(k, v). quote_plus k @ ''='' @ quote_plus (str_val (isprintable s) v))
                 (filter (\<lambda>(k, v). k \<noteq> ''database'') params))
            @ concat (map (\<lambda>db. ''&database='' @ db) dbs))]"
    using run_posts [OF assms e] h by simp
next
  assume h: "svc \<noteq> ''ncbiblast''"
  show "requests (trace (snd (snd (run srv params s)))) =
        requests (trace s1) @
        [Post (ebiServiceUrl @ svc @ ''/run/'')
           (join ''&''
              (map (\<lambda>(k, v). quote_plus k @ ''='' @ quote_plus (str_val (isprintable s) v))
                 params))]"
    using run_posts [OF assms encode_other [OF h]] by simp
next
  show "str_val (isprintable s) (Lst dbs)
         = ''['' @ join '', '' (map (repr_str (isprintable s)) dbs) @ '']''"
    by (simp add: str_val_def)
qed

theorem run_request_body_witness:
  "requests (trace (snd (snd (run (mock_remote ''ncbiblast'' ''job-2'' [])
      [(''sequence'', Str ''MKV''), (''database'', Lst [''uniprotkb'', ''pdb'']),
       (''program'', Str ''blastp'')]
      (EBI_init (Some ''ncbiblast'') ascii_only Map.empty [])))))
   = [Post ''http://www.ebi.ac.uk/Tools/services/rest/ncbiblast/run/''
        ''sequence=MKV&program=blastp&database=uniprotkb&database=pdb'']
   \<and> requests (trace (snd (snd (run (mock_remote ''clustalw2'' ''job-3'' [])
      [(''sequence'', Str ''MKV''), (''database'', Lst [''uniprotkb'', ''pdb''])]
      (EBI_init (Some ''clustalw2'') ascii_only Map.empty [])))))
   = [Post ''http://www.ebi.ac.uk/Tools/services/rest/clustalw2/run/''
        ''sequence=MKV&database=%5B%27uniprotkb%27%2C+%27pdb%27%5D'']"
proof -
  let ?s = "EBI_init (Some ''ncbiblast'') ascii_only Map.empty ([] :: string list)"
  let ?p = "[(''sequence'', Str ''MKV''), (''database'', Lst [''uniprotkb'', ''pdb'']),
       (''program'', Str ''blastp'')]"
  let ?t = "EBI_init (Some ''clustalw2'') ascii_only Map.empty ([] :: string list)"
  let ?q = "[(''sequence'', Str ''MKV''), (''database'', Lst [''uniprotkb'', ''pdb''])]"
  have h1: "service ?s = Some ''ncbiblast''"
    by (simp add: EBI_init_def)
  have h2: "isLocked (mock_remote ''ncbiblast'' ''job-2'' []) ?s = (Inr False, ?s)"
    by (simp add: isLocked_def EBI_init_def)
  have h3: "''ncbiblast'' = ''ncbiblast'' \<and> map_of ?p ''database'' = Some (Lst [''uniprotkb'', ''pdb''])"
    by simp
  have e: "join ''&''
             (map (\<lambda>(k, v). quote_plus k @ ''='' @ quote_plus (str_val (isprintable ?s) v))
                (filter (\<lambda>(k, v). k \<noteq> ''database'') ?p))
         @ concat (map (\<lambda>db. ''&database='' @ db) [''uniprotkb'', ''pdb''])
       = ''sequence=MKV&program=blastp&database=uniprotkb&database=pdb''"
    by code_simp
  have g1: "service ?t = Some ''clustalw2''"
    by (simp add: EBI_init_def)
  have g2: "isLocked (mock_remote ''clustalw2'' ''job-3'' []) ?t = (Inr False, ?t)"
    by (simp add: isLocked_def EBI_init_def)
  have g3: "''clustalw2'' \<noteq> ''ncbiblast''"
    by simp
  have f: "join ''&''
             (map (\<lambda>(k, v). quote_plus k @ ''='' @ quote_plus (str_val (isprintable ?t) v)) ?q)
       = ''sequence=MKV&database=%5B%27uniprotkb%27%2C+%27pdb%27%5D''"
    by code_simp
  have 1: "requests (trace (snd (snd (run (mock_remote ''ncbiblast'' ''job-2'' []) ?p ?s))))
      = [Post ''http://www.ebi.ac.uk/Tools/services/rest/ncbiblast/run/''
        ''sequence=MKV&program=blastp&database=uniprotkb&database=pdb'']"
    using run_request_body [where srv = "mock_remote ''ncbiblast'' ''job-2'' []"
        and params = ?p and dbs = "[''uniprotkb'', ''pdb'']", OF h1 h2, THEN conjunct1] h3
    unfolding e by (simp add: EBI_init_def ebiServiceUrl_def)
  have 2: "requests (trace (snd (snd (run (mock_remote ''clustalw2'' ''job-3'' []) ?q ?t))))
      = [Post ''http://www.ebi.ac.uk/Tools/services/rest/clustalw2/run/''
        ''sequence=MKV&database=%5B%27uniprotkb%27%2C+%27pdb%27%5D'']"
    using run_request_body [where srv = "mock_remote ''clustalw2'' ''job-3'' []"
        and params = ?q, OF g1 g2, THEN conjunct2, THEN conjunct1] g3
    unfolding f by (simp add: EBI_init_def ebiServiceUrl_def)
  show ?thesis using 1 2 by simp
qed

text \<open>
  Claim C5 as stated fails for a service other than ncbiblast: there a list under the
  key database is encoded like any other value, as one pair whose value is the
  printed list.
\<close>

theorem run_other_service_counterexample:
  "requests (trace (snd (snd (run (mock_remote ''psiblast'' ''job-2'' [])
      [(''sequence'', Str ''MKV''), (''database'', Lst [''uniprotkb'', ''pdb''])]
      (EBI_init (Some ''psiblast'') ascii_only Map.empty [])))))
   = [Post ''http://www.ebi.ac.uk/Tools/services/rest/psiblast/run/''
        ''sequence=MKV&database=%5B%27uniprotkb%27%2C+%27pdb%27%5D'']
   \<and> count_sub ''database='' ''sequence=MKV&database=%5B%27uniprotkb%27%2C+%27pdb%27%5D'' = 1"
  by code_simp

subsection \<open>The polling loop\<close>

lemma status_state:
  "status srv jid s = (x, s') \<Longrightarrow>
   service s' = service s \<and> lockFile s' = lockFile s \<and> jobId s' = jobId s \<and> files s' = files s"
  by (auto simp: status_def split: option.splits dest!: urlopen_state)

lemma submit_loop_frame_aux:
  assumes "submit_loop srv st observe s = Some y"
  shows "service (snd y) = service s \<and> lockFile (snd y) = lockFile s
         \<and> jobId (snd y) = jobId s \<and> files (snd y) = files s"
proof (rule submit_loop.raw_induct
    [where P = "\<lambda>srv st observe s y. service (snd y) = service s \<and> lockFile (snd y) = lockFile s
         \<and> jobId (snd y) = jobId s \<and> files (snd y) = files s", OF _ assms])
  fix loop srv st observe and s :: "'a session" and y
  assume IH: "\<And>srv st observe s y. loop srv st observe s = Some y \<Longrightarrow>
      service (snd y) = service s \<and> lockFile (snd y) = lockFile s
         \<and> jobId (snd y) = jobId s \<and> files (snd y) = files s"
    and eq: "(if st = ''RUNNING'' then
        (case status srv None s of
           (Inl e, s1) \<Rightarrow> Some (Inl e, s1)
         | (Inr st', s1) \<Rightarrow> loop srv st' (observe + 1) (sleep checkInterval s1))
      else Some (Inr st, s)) = Some y"
  show "service (snd y) = service s \<and> lockFile (snd y) = lockFile s
         \<and> jobId (snd y) = jobId s \<and> files (snd y) = files s"
  proof (cases "st = ''RUNNING''")
    case False
    with eq show ?thesis by auto
  next
    case True
    obtain a s1 where st: "status srv None s = (a, s1)" by (cases "status srv None s")
    note fr = status_state [OF st]
    show ?thesis
    proof (cases a)
      case (Inl e)
      with eq True st fr show ?thesis by auto
    next
      case (Inr st')
      with eq True st have "loop srv st' (observe + 1) (sleep checkInterval s1) = Some y"
        by simp
      from IH [OF this] fr show ?thesis by (simp add: sleep_def)
    qed
  qed
qed

lemma submit_loop_frame:
  assumes "submit_loop srv st observe s = Some (x, s')"
  shows "service s' = service s \<and> lockFile s' = lockFile s \<and> jobId s' = jobId s
         \<and> files s' = files s"
  using submit_loop_frame_aux [OF assms] by simp

lemma poll_state_shift:
  "poll_state srv url r (Suc n) = poll_state srv url (snd (srv r (Get url))) n"
  by (induction n) simp_all

lemma poll_reply_shift:
  "poll_reply srv url r (Suc n) = poll_reply srv url (snd (srv r (Get url))) n"
  unfolding poll_reply_def poll_state_shift ..

lemma loop_round:
  assumes "service s = Some svc" and "jobId s = Some j"
    and "fst (srv (remote s) (Get (status_url svc j))) = Body ''RUNNING''"
  shows "submit_loop srv ''RUNNING'' observe s =
    submit_loop srv ''RUNNING'' (observe + 1)
      (s\<lparr>remote := snd (srv (remote s) (Get (status_url svc j))),
         trace := trace s @ [Urlopen (Get (status_url svc j)), Sleep checkInterval]\<rparr>)"
proof -
  have "status srv None s =
      (Inr ''RUNNING'', s\<lparr>remote := snd (srv (remote s) (Get (status_url svc j))),
         trace := trace s @ [Urlopen (Get (status_url svc j))]\<rparr>)"
    using assms by (auto simp: status_def urlopen_def Let_def split: prod.splits)
  then show ?thesis
    by (subst submit_loop.simps) (simp add: sleep_def)
qed

lemma loop_stop:
  assumes "service s = Some svc" and "jobId s = Some j"
    and "fst (srv (remote s) (Get (status_url svc j))) \<noteq> Body ''RUNNING''"
  shows "\<exists>y. submit_loop srv ''RUNNING'' observe s = Some y"
proof -
  obtain a s1 where st: "status srv None s = (a, s1)" by (cases "status srv None s")
  show ?thesis
  proof (cases a)
    case (Inl e)
    with st show ?thesis by (subst submit_loop.simps) simp
  next
    case (Inr st')
    with st assms have "st' \<noteq> ''RUNNING''"
      by (auto simp: status_def dest!: urlopen_Inr_state)
    then have "submit_loop srv st' (observe + 1) (sleep checkInterval s1)
        = Some (Inr st', sleep checkInterval s1)"
      by (subst submit_loop.simps) simp
    with st Inr show ?thesis by (subst submit_loop.simps) simp
  qed
qed

lemma loop_terminates:
  assumes "poll_reply srv (status_url svc j) (remote s) n \<noteq> Body ''RUNNING''"
    and "service s = Some svc" and "jobId s = Some j"
  shows "\<exists>y. submit_loop srv ''RUNNING'' observe s = Some y"
  using assms
proof (induction n arbitrary: s observe)
  case 0
  then show ?case
    using loop_stop [where srv = srv and s = s] by (simp add: poll_reply_def)
next
  case (Suc n)
  let ?url = "status_url svc j"
  show ?case
  proof (cases "fst (srv (remote s) (Get ?url)) = Body ''RUNNING''")
    case False
    then show ?thesis
      using loop_stop [where srv = srv and s = s, OF Suc.prems(2,3)] by simp
  next
    case True
    let ?s' = "s\<lparr>remote := snd (srv (remote s) (Get ?url)),
         trace := trace s @ [Urlopen (Get ?url), Sleep checkInterval]\<rparr>"
    have "poll_reply srv ?url (remote ?s') n \<noteq> Body ''RUNNING''"
      using Suc.prems(1) by (simp add: poll_reply_shift)
    then have "\<exists>y. submit_loop srv ''RUNNING'' (observe + 1) ?s' = Some y"
      using Suc.IH [of ?s' "observe + 1"] Suc.prems(2,3) by simp
    then show ?thesis
      using loop_round [where srv = srv and s = s, OF Suc.prems(2,3) True] by simp
  qed
qed

lemma loop_returns_aux:
  assumes "submit_loop srv st observe s = Some y"
  shows "st = ''RUNNING'' \<longrightarrow> service s = Some svc \<longrightarrow> jobId s = Some j \<longrightarrow>
     (\<exists>n. poll_reply srv (status_url svc j) (remote s) n \<noteq> Body ''RUNNING'')"
proof (rule submit_loop.raw_induct
    [where P = "\<lambda>srv st observe s y. st = ''RUNNING'' \<longrightarrow> service s = Some svc \<longrightarrow>
       jobId s = Some j \<longrightarrow>
       (\<exists>n. poll_reply srv (status_url svc j) (remote s) n \<noteq> Body ''RUNNING'')", OF _ assms])
  fix loop srv st observe and s :: "'a session" and y :: "(pyerror + string) \<times> 'a session"
  let ?url = "status_url svc j"
  assume IH: "\<And>srv st observe s y. loop srv st observe s = Some y \<Longrightarrow>
      st = ''RUNNING'' \<longrightarrow> service s = Some svc \<longrightarrow> jobId s = Some j \<longrightarrow>
       (\<exists>n. poll_reply srv (status_url svc j) (remote s) n \<noteq> Body ''RUNNING'')"
    and eq: "(if st = ''RUNNING'' then
        (case status srv None s of
           (Inl e, s1) \<Rightarrow> Some (Inl e, s1)
         | (Inr st', s1) \<Rightarrow> loop srv st' (observe + 1) (sleep checkInterval s1))
      else Some (Inr st, s)) = Some y"
  show "st = ''RUNNING'' \<longrightarrow> service s = Some svc \<longrightarrow> jobId s = Some j \<longrightarrow>
       (\<exists>n. poll_reply srv ?url (remote s) n \<noteq> Body ''RUNNING'')"
  proof (intro impI)
    assume run: "st = ''RUNNING''" and svc: "service s = Some svc" and j: "jobId s = Some j"
    show "\<exists>n. poll_reply srv ?url (remote s) n \<noteq> Body ''RUNNING''"
    proof (cases "fst (srv (remote s) (Get ?url)) = Body ''RUNNING''")
      case False
      then have "poll_reply srv ?url (remote s) 0 \<noteq> Body ''RUNNING''"
        by (simp add: poll_reply_def)
      then show ?thesis by blast
    next
      case True
      let ?s1 = "s\<lparr>remote := snd (srv (remote s) (Get ?url)),
           trace := trace s @ [Urlopen (Get ?url)]\<rparr>"
      have "status srv None s = (Inr ''RUNNING'', ?s1)"
        using True svc j by (auto simp: status_def urlopen_def Let_def split: prod.splits)
      with eq run have "loop srv ''RUNNING'' (observe + 1) (sleep checkInterval ?s1) = Some y"
        by simp
      from IH [OF this] svc j
      obtain n where "poll_reply srv ?url (snd (srv (remote s) (Get ?url))) n \<noteq> Body ''RUNNING''"
        by (auto simp: sleep_def)
      then have "poll_reply srv ?url (remote s) (Suc n) \<noteq> Body ''RUNNING''"
        by (simp add: poll_reply_shift)
      then show ?thesis by blast
    qed
  qed
qed

lemma loop_returns_only_after_other_reply:
  assumes "submit_loop srv ''RUNNING'' observe s = Some y"
    and "service s = Some svc" and "jobId s = Some j"
  shows "\<exists>n. poll_reply srv (status_url svc j) (remote s) n \<noteq> Body ''RUNNING''"
  using loop_returns_aux [OF assms(1)] assms(2,3) by simp

lemma busy_reply: "poll_reply busy_remote url r n = Body ''RUNNING''"
  by (simp add: poll_reply_def busy_remote_def)

text \<open>
  Claim C9. For a session with a service and a job identifier, the polling loop of
  \<open>submit\<close> returns if and only if one of the answers of the remote service to the
  successive status queries is something else than the status RUNNING. RUNNING is the
  only status that keeps the loop going; any other status, or a failed query, ends it;
  and no bound on the number of rounds exists: when every answer is RUNNING the loop
  never returns.
\<close>

theorem submit_loop_terminates_iff:
  assumes "service s = Some svc" and "jobId s = Some j"
  shows "submit_loop srv ''RUNNING'' observe s \<noteq> None
     \<longleftrightarrow> (\<exists>n. poll_reply srv (status_url svc j) (remote s) n \<noteq> Body ''RUNNING'')"
proof
  assume "submit_loop srv ''RUNNING'' observe s \<noteq> None"
  then obtain y where "submit_loop srv ''RUNNING'' observe s = Some y" by blast
  from loop_returns_only_after_other_reply [OF this assms]
  show "\<exists>n. poll_reply srv (status_url svc j) (remote s) n \<noteq> Body ''RUNNING''" .
next
  assume "\<exists>n. poll_reply srv (status_url svc j) (remote s) n \<noteq> Body ''RUNNING''"
  then obtain n where "poll_reply srv (status_url svc j) (remote s) n \<noteq> Body ''RUNNING''" ..
  from loop_terminates [OF this assms]
  show "submit_loop srv ''RUNNING'' observe s \<noteq> None" by simp
qed

theorem submit_loop_terminates_iff_witness:
  "submit_loop demo_remote ''RUNNING'' 0
     ((EBI_init (Some ''demo'') ascii_only Map.empty [''RUNNING'', ''RUNNING'', ''FINISHED''])
        \<lparr>jobId := Some ''job-1''\<rparr>) \<noteq> None
   \<and> submit_loop busy_remote ''RUNNING'' 0
     ((EBI_init (Some ''demo'') ascii_only Map.empty ())\<lparr>jobId := Some ''job-1''\<rparr>) = None"
proof -
  let ?s = "(EBI_init (Some ''demo'') ascii_only Map.empty [''RUNNING'', ''RUNNING'', ''FINISHED''])
        \<lparr>jobId := Some ''job-1''\<rparr>"
  let ?b = "(EBI_init (Some ''demo'') ascii_only Map.empty ())\<lparr>jobId := Some ''job-1''\<rparr>"
  have s: "service ?s = Some ''demo''" "jobId ?s = Some ''job-1''"
    by (simp_all add: EBI_init_def)
  have b: "service ?b = Some ''demo''" "jobId ?b = Some ''job-1''"
    by (simp_all add: EBI_init_def)
  have "poll_reply demo_remote (status_url ''demo'' ''job-1'') (remote ?s) 2 \<noteq> Body ''RUNNING''"
    by code_simp
  then have 1: "submit_loop demo_remote ''RUNNING'' 0 ?s \<noteq> None"
    using submit_loop_terminates_iff [where srv = demo_remote and observe = 0, OF s] by blast
  have "\<not> (\<exists>n. poll_reply busy_remote (status_url ''demo'' ''job-1'') (remote ?b) n
      \<noteq> Body ''RUNNING'')"
    by (simp add: busy_reply)
  then have 2: "submit_loop busy_remote ''RUNNING'' 0 ?b = None"
    using submit_loop_terminates_iff [where srv = busy_remote and observe = 0, OF b] by blast
  show ?thesis using 1 2 by simp
qed

subsection \<open>After the loop\<close>

lemma result_error_frame:
  assumes "result srv ''error'' s = (x, s')"
  shows "files s' = files s \<and> lockFile s' = lockFile s \<and> service s' = service s
     \<and> jobId s' = jobId s \<and> (\<exists>qs. trace s' = trace s @ map Urlopen qs)"
proof (cases "service s = None \<or> jobId s = None")
  case True
  then have "s' = s"
    using assms by (subst (asm) result.simps) (auto split: option.splits)
  then show ?thesis by simp
next
  case False
  then obtain svc j where sj: "service s = Some svc" "jobId s = Some j" by auto
  let ?q = "Get (result_url svc j ''error'')"
  have "s' = s\<lparr>remote := snd (srv (remote s) ?q), trace := trace s @ [Urlopen ?q]\<rparr>"
    using assms sj
    by (subst (asm) result.simps)
       (auto split: prod.splits sum.splits if_splits dest!: urlopen_state)
  then have "files s' = files s \<and> lockFile s' = lockFile s \<and> service s' = service s
     \<and> jobId s' = jobId s \<and> trace s' = trace s @ map Urlopen [?q]"
    by simp
  then show ?thesis by blast
qed

lemma result_frame:
  assumes "result srv resultType s = (x, s')"
  shows "files s' = files s \<and> lockFile s' = lockFile s \<and> service s' = service s
     \<and> jobId s' = jobId s \<and> (\<exists>qs. trace s' = trace s @ map Urlopen qs)"
proof (cases "service s = None \<or> jobId s = None")
  case True
  then have "s' = s"
    using assms by (subst (asm) result.simps) (auto split: option.splits)
  then show ?thesis by simp
next
  case False
  then obtain svc j where sj: "service s = Some svc" "jobId s = Some j" by auto
  let ?q = "Get (result_url svc j resultType)"
  let ?s1 = "s\<lparr>remote := snd (srv (remote s) ?q), trace := trace s @ [Urlopen ?q]\<rparr>"
  have "s' = ?s1 \<or> (\<exists>y. result srv ''error'' ?s1 = (y, s'))"
    using assms sj
    by (subst (asm) result.simps)
       (auto split: prod.splits sum.splits if_splits dest!: urlopen_state)
  then show ?thesis
  proof
    assume "s' = ?s1"
    then have "files s' = files s \<and> lockFile s' = lockFile s \<and> service s' = service s
       \<and> jobId s' = jobId s \<and> trace s' = trace s @ map Urlopen [?q]"
      by simp
    then show ?thesis by blast
  next
    assume "\<exists>y. result srv ''error'' ?s1 = (y, s')"
    then obtain y where "result srv ''error'' ?s1 = (y, s')" ..
    from result_error_frame [OF this]
    obtain qs where "files s' = files s \<and> lockFile s' = lockFile s \<and> service s' = service s
       \<and> jobId s' = jobId s \<and> trace s' = trace s @ map Urlopen (?q # qs)"
      by auto
    then show ?thesis by blast
  qed
qed

lemma fetch_results_frame:
  "fetch_results srv ts acc s = (x, s') \<Longrightarrow>
   files s' = files s \<and> lockFile s' = lockFile s \<and> service s' = service s
     \<and> jobId s' = jobId s \<and> (\<exists>qs. trace s' = trace s @ map Urlopen qs)"
proof (induction ts arbitrary: acc s)
  case Nil
  then have "s' = s" by simp
  then have "trace s' = trace s @ map Urlopen []" by simp
  with \<open>s' = s\<close> show ?case by blast
next
  case (Cons t ts)
  obtain a s1 where r: "result srv t s = (a, s1)" by (cases "result srv t s")
  from result_frame [OF r] obtain qs where
    f1: "files s1 = files s" "lockFile s1 = lockFile s" "service s1 = service s"
      "jobId s1 = jobId s" "trace s1 = trace s @ map Urlopen qs"
    by auto
  show ?case
  proof (cases a)
    case (Inl e)
    with Cons.prems r have "s' = s1" by simp
    with f1 show ?thesis by blast
  next
    case (Inr c)
    with Cons.prems r have "fetch_results srv ts (acc @ [c]) s1 = (x, s')" by simp
    from Cons.IH [OF this] obtain qs' where
      "files s' = files s1" "lockFile s' = lockFile s1" "service s' = service s1"
      "jobId s' = jobId s1" "trace s' = trace s1 @ map Urlopen qs'"
      by auto
    with f1 have "files s' = files s \<and> lockFile s' = lockFile s \<and> service s' = service s
     \<and> jobId s' = jobId s \<and> trace s' = trace s @ map Urlopen (qs @ qs')"
      by simp
    then show ?thesis by blast
  qed
qed

lemma result_Inr:
  assumes "result srv resultType s = (Inr c, s')"
    and "service s = Some svc" and "jobId s = Some j"
  shows "fst (srv (remote s) (Get (result_url svc j resultType))) = Body c
     \<and> s' = s\<lparr>remote := snd (srv (remote s) (Get (result_url svc j resultType))),
              trace := trace s @ [Urlopen (Get (result_url svc j resultType))]\<rparr>"
  using assms
  by (subst (asm) result.simps)
     (auto split: prod.splits sum.splits if_splits dest!: urlopen_Inr_state)

lemma fetch_results_ok:
  assumes "fetch_results srv ts acc s = (Inr res, s')"
    and "service s = Some svc" and "jobId s = Some j"
  shows "\<exists>cs. res = acc @ cs
     \<and> replies srv (remote s) (map (\<lambda>t. Get (result_url svc j t)) ts) = map Body cs"
  using assms
proof (induction ts arbitrary: acc s)
  case Nil
  then show ?case by simp
next
  case (Cons t ts)
  obtain a s1 where r: "result srv t s = (a, s1)" by (cases "result srv t s")
  show ?case
  proof (cases a)
    case (Inl e)
    with Cons.prems r show ?thesis by simp
  next
    case (Inr c)
    note ri = result_Inr [OF r [unfolded Inr] Cons.prems(2,3)]
    from Inr Cons.prems r have "fetch_results srv ts (acc @ [c]) s1 = (Inr res, s')" by simp
    from Cons.IH [OF this] ri Cons.prems(2,3)
    obtain cs where "res = (acc @ [c]) @ cs"
      "replies srv (snd (srv (remote s) (Get (result_url svc j t))))
         (map (\<lambda>t. Get (result_url svc j t)) ts) = map Body cs"
      by auto
    with ri have "res = acc @ (c # cs)
      \<and> replies srv (remote s) (map (\<lambda>t. Get (result_url svc j t)) (t # ts)) = map Body (c # cs)"
      by simp
    then show ?thesis by blast
  qed
qed

lemma run_ok_lock:
  assumes "run srv params s = (Inr j, params', s1)"
  shows "files s1 (lockFile s1) = Some j \<and> jobId s1 = Some j \<and> service s1 = service s
     \<and> lockFile s1 = lockFile s"
proof -
  obtain svc where svc: "service s = Some svc"
    using assms by (cases "service s") (simp_all add: run_def)
  from run_ok_state [OF assms svc] obtain s0 body where
    l: "isLocked srv s = (Inr False, s0)" and
    s1: "s1 = s0\<lparr>remote := snd (srv (remote s0) (Post (ebiServiceUrl @ svc @ ''/run/'') body)),
                     trace := trace s0 @ [Urlopen (Post (ebiServiceUrl @ svc @ ''/run/'') body),
                                          Write (lockFile s0) j],
                     jobId := Some j,
                     files := (files s0)(lockFile s0 \<mapsto> j)\<rparr>"
    by blast
  show ?thesis using isLocked_frame [OF l] by (simp add: s1)
qed

lemma finish_not_finished:
  "st \<noteq> ''FINISHED'' \<Longrightarrow>
   finish srv resultTypes st s =
     (Inl (RuntimeError ''An error occurred and the job could not be completed''), s)"
  by (simp add: finish_def)

lemma finish_finished:
  assumes "files s (lockFile s) = Some j"
  shows "\<exists>r s3 qs. finish srv resultTypes ''FINISHED'' s = (r, s3)
     \<and> trace s3 = trace s @ Remove (lockFile s) # map Urlopen qs
     \<and> files s3 (lockFile s3) = None"
proof -
  let ?s1 = "s\<lparr>files := (files s)(lockFile s := None), trace := trace s @ [Remove (lockFile s)]\<rparr>"
  have rl: "removeLock s = (Inr (), ?s1)"
    using assms by (simp add: removeLock_def)
  obtain a s2 where f: "fetch_results srv (as_list resultTypes) [] ?s1 = (a, s2)"
    by (cases "fetch_results srv (as_list resultTypes) [] ?s1")
  from fetch_results_frame [OF f] obtain qs where
    fr: "files s2 = files ?s1" "lockFile s2 = lockFile ?s1" "trace s2 = trace ?s1 @ map Urlopen qs"
    by auto
  have "\<exists>r. finish srv resultTypes ''FINISHED'' s = (r, s2)"
    using rl f by (cases a) (simp_all add: finish_def)
  moreover have "trace s2 = trace s @ Remove (lockFile s) # map Urlopen qs"
    using fr by simp
  moreover have "files s2 (lockFile s2) = None"
    using fr by simp
  ultimately show ?thesis by blast
qed

lemma option_fst_the:
  "map_option fst x = Some a \<Longrightarrow> x = Some (a, snd (the x))"
  by (cases x) auto

text \<open>
  Claim C7. Let \<open>run\<close> have succeeded inside \<open>submit\<close> and let the polling loop have
  ended with a status. When the status is not FINISHED, \<open>submit\<close> fails with the
  error that the job could not be completed, and the lock file still holds the job
  identifier. When the status is FINISHED, the first thing \<open>submit\<close> does is to remove
  the lock file; whatever happens afterwards is requests to the remote service only,
  so the lock file is gone whether the results can be fetched or not.
\<close>

theorem submit_lock_release:
  assumes "run srv (setitem params ''email'' (Str email)) s = (Inr j, params', s1)"
    and "submit_loop srv ''RUNNING'' 0 s1 = Some (Inr st, s2)"
  shows "(st \<noteq> ''FINISHED'' \<longrightarrow>
            submit srv params resultTypes s =
              Some (Inl (RuntimeError ''An error occurred and the job could not be completed''),
                    params', s2)
            \<and> files s2 (lockFile s2) = Some j)
     \<and> (st = ''FINISHED'' \<longrightarrow>
            (\<exists>r s3 qs. submit srv params resultTypes s = Some (r, params', s3)
               \<and> trace s3 = trace s2 @ Remove (lockFile s2) # map Urlopen qs
               \<and> files s3 (lockFile s3) = None))"
proof -
  have lock: "files s2 (lockFile s2) = Some j"
    using run_ok_lock [OF assms(1)] submit_loop_frame [OF assms(2)] by auto
  have sub: "submit srv params resultTypes s =
      (case finish srv resultTypes st s2 of (r, s3) \<Rightarrow> Some (r, params', s3))"
    using assms by (simp add: submit_def)
  show ?thesis
  proof (intro conjI impI)
    assume "st \<noteq> ''FINISHED''"
    then show "submit srv params resultTypes s =
              Some (Inl (RuntimeError ''An error occurred and the job could not be completed''),
                    params', s2)"
      by (simp add: sub finish_not_finished)
  next
    show "files s2 (lockFile s2) = Some j" by (rule lock)
  next
    assume st: "st = ''FINISHED''"
    from finish_finished [OF lock, of srv resultTypes] obtain r s3 qs where
      "finish srv resultTypes ''FINISHED'' s2 = (r, s3)"
      "trace s3 = trace s2 @ Remove (lockFile s2) # map Urlopen qs"
      "files s3 (lockFile s3) = None"
      by blast
    then have "submit srv params resultTypes s = Some (r, params', s3)
               \<and> trace s3 = trace s2 @ Remove (lockFile s2) # map Urlopen qs
               \<and> files s3 (lockFile s3) = None"
      by (simp add: sub st)
    then show "\<exists>r s3 qs. submit srv params resultTypes s = Some (r, params', s3)
               \<and> trace s3 = trace s2 @ Remove (lockFile s2) # map Urlopen qs
               \<and> files s3 (lockFile s3) = None"
      by blast
  qed
qed

theorem submit_lock_release_witness:
  "map_option fst
     (submit demo_remote [(''query'', Str ''abc'')] (Str ''out'')
        (EBI_init (Some ''demo'') ascii_only Map.empty [''RUNNING'', ''ERROR'']))
     = Some (Inl (RuntimeError ''An error occurred and the job could not be completed''))
   \<and> map_option (\<lambda>(r, p, s). files s (lockFile s))
     (submit demo_remote [(''query'', Str ''abc'')] (Str ''out'')
        (EBI_init (Some ''demo'') ascii_only Map.empty [''RUNNING'', ''ERROR'']))
     = Some (Some ''job-1'')
   \<and> map_option (\<lambda>(r, p, s). files s (lockFile s))
     (submit demo_remote [(''query'', Str ''abc'')] (Str ''out'')
        (EBI_init (Some ''demo'') ascii_only Map.empty [''RUNNING'', ''RUNNING'', ''FINISHED'']))
     = Some None"
proof -
  let ?p = "[(''query'', Str ''abc'')]"
  let ?e = "EBI_init (Some ''demo'') ascii_only Map.empty [''RUNNING'', ''ERROR'']"
  let ?f = "EBI_init (Some ''demo'') ascii_only Map.empty [''RUNNING'', ''RUNNING'', ''FINISHED'']"
  let ?re = "run demo_remote (setitem ?p ''email'' (Str email)) ?e"
  let ?rf = "run demo_remote (setitem ?p ''email'' (Str email)) ?f"
  let ?le = "submit_loop demo_remote ''RUNNING'' 0 (snd (snd ?re))"
  let ?lf = "submit_loop demo_remote ''RUNNING'' 0 (snd (snd ?rf))"
  have "fst ?re = Inr ''job-1''" by code_simp
  then have e1: "?re = (Inr ''job-1'', fst (snd ?re), snd (snd ?re))"
    by (metis prod.collapse)
  have "fst ?rf = Inr ''job-1''" by code_simp
  then have f1: "?rf = (Inr ''job-1'', fst (snd ?rf), snd (snd ?rf))"
    by (metis prod.collapse)
  have "map_option fst ?le = Some (Inr ''ERROR'')" by code_simp
  then have e2: "?le = Some (Inr ''ERROR'', snd (the ?le))" by (rule option_fst_the)
  have "map_option fst ?lf = Some (Inr ''FINISHED'')" by code_simp
  then have f2: "?lf = Some (Inr ''FINISHED'', snd (the ?lf))" by (rule option_fst_the)
  have ne: "''ERROR'' \<noteq> ''FINISHED''" by simp
  from submit_lock_release [OF e1 e2, of "Str ''out''"] ne
  have a: "submit demo_remote ?p (Str ''out'') ?e =
       Some (Inl (RuntimeError ''An error occurred and the job could not be completed''),
             fst (snd ?re), snd (the ?le))
     \<and> files (snd (the ?le)) (lockFile (snd (the ?le))) = Some ''job-1''"
    by blast
  from submit_lock_release [OF f1 f2, of "Str ''out''"]
  obtain r s3 where b: "submit demo_remote ?p (Str ''out'') ?f = Some (r, fst (snd ?rf), s3)"
     "files s3 (lockFile s3) = None"
    by blast
  show ?thesis using a b by simp
qed

subsection \<open>The value returned\<close>

lemma replies_length: "length (replies srv r qs) = length qs"
  by (induction qs arbitrary: r) simp_all

lemma submit_Inr_phases:
  assumes "submit srv params resultTypes s = Some (Inr v, params', s')"
  shows "\<exists>j s1 st s2. run srv (setitem params ''email'' (Str email)) s = (Inr j, params', s1)
     \<and> submit_loop srv ''RUNNING'' 0 s1 = Some (Inr st, s2)
     \<and> finish srv resultTypes st s2 = (Inr v, s')"
  using assms
  by (auto simp: submit_def split: prod.splits sum.splits option.splits)

lemma finish_Inr:
  assumes "finish srv resultTypes st s = (Inr v, s')"
  shows "st = ''FINISHED'' \<and> (\<exists>results.
     fetch_results srv (as_list resultTypes) []
       (s\<lparr>files := (files s)(lockFile s := None), trace := trace s @ [Remove (lockFile s)]\<rparr>)
       = (Inr results, s')
     \<and> v = (if length results = 1 then Str (results ! 0) else Lst results))"
  using assms
  by (auto simp: finish_def removeLock_def split: if_splits prod.splits sum.splits option.splits)

lemma option_triple_the:
  "map_option fst x = Some a \<Longrightarrow> x = Some (a, fst (snd (the x)), snd (snd (the x)))"
  by (cases x) auto

text \<open>
  Claim C8. When \<open>submit\<close> returns a value, \<open>run\<close> had returned a job identifier, the
  loop had ended with FINISHED, and the remote service answered the result requests,
  one for each requested type in the order of the request, with the contents \<open>cs\<close>.
  When one type was requested, as a single value or as a list of one element, the
  value returned is the one content itself. When a list of more than one type was
  requested, the value returned is the list \<open>cs\<close>, as long as the list of types and in
  its order.
\<close>

theorem submit_return_value:
  assumes "submit srv params resultTypes s = Some (Inr v, params', s')"
    and "service s = Some svc"
  shows "\<exists>j s1 s2 cs.
       run srv (setitem params ''email'' (Str email)) s = (Inr j, params', s1)
     \<and> submit_loop srv ''RUNNING'' 0 s1 = Some (Inr ''FINISHED'', s2)
     \<and> replies srv (remote s2) (map (\<lambda>t. Get (result_url svc j t)) (as_list resultTypes))
         = map Body cs
     \<and> (resultTypes = Str t \<or> resultTypes = Lst [t] \<longrightarrow> cs = [hd cs] \<and> v = Str (hd cs))
     \<and> (resultTypes = Lst ts \<and> 1 < length ts \<longrightarrow> length cs = length ts \<and> v = Lst cs)"
proof -
  from submit_Inr_phases [OF assms(1)] obtain j s1 st s2 where
    run: "run srv (setitem params ''email'' (Str email)) s = (Inr j, params', s1)" and
    loop: "submit_loop srv ''RUNNING'' 0 s1 = Some (Inr st, s2)" and
    fin: "finish srv resultTypes st s2 = (Inr v, s')"
    by blast
  let ?s3 = "s2\<lparr>files := (files s2)(lockFile s2 := None),
                 trace := trace s2 @ [Remove (lockFile s2)]\<rparr>"
  from finish_Inr [OF fin] obtain results where
    st: "st = ''FINISHED''" and
    fetch: "fetch_results srv (as_list resultTypes) [] ?s3 = (Inr results, s')" and
    v: "v = (if length results = 1 then Str (results ! 0) else Lst results)"
    by blast
  have s2: "service s2 = Some svc" "jobId s2 = Some j"
    using run_ok_lock [OF run] submit_loop_frame [OF loop] assms(2) by auto
  then have s3: "service ?s3 = Some svc" "jobId ?s3 = Some j" by simp_all
  from fetch_results_ok [OF fetch s3] have
    rep: "replies srv (remote s2) (map (\<lambda>t. Get (result_url svc j t)) (as_list resultTypes))
         = map Body results"
    by simp
  then have len: "length results = length (as_list resultTypes)"
    by (metis length_map replies_length)
  have one: "results = [hd results] \<and> v = Str (hd results)"
    if "resultTypes = Str t \<or> resultTypes = Lst [t]"
  proof -
    from that len have "length results = 1" by (auto simp: as_list_def)
    then show ?thesis using v by (cases results) auto
  qed
  have many: "length results = length ts \<and> v = Lst results"
    if "resultTypes = Lst ts \<and> 1 < length ts"
    using that len v by (auto simp: as_list_def)
  show ?thesis
    using run loop [unfolded st] rep one many by blast
qed

theorem submit_return_value_witness:
  "map_option fst
     (submit (mock_remote ''demo'' ''job-1'' [(''out'', ''ok''), (''ids'', ''P12345'')])
        [(''query'', Str ''abc'')] (Str ''out'')
        (EBI_init (Some ''demo'') ascii_only Map.empty [''FINISHED'']))
     = Some (Inr (Str ''ok''))
   \<and> map_option fst
     (submit (mock_remote ''demo'' ''job-1'' [(''out'', ''ok''), (''ids'', ''P12345'')])
        [(''query'', Str ''abc'')] (Lst [''out''])
        (EBI_init (Some ''demo'') ascii_only Map.empty [''FINISHED'']))
     = Some (Inr (Str ''ok''))
   \<and> map_option fst
     (submit (mock_remote ''demo'' ''job-1'' [(''out'', ''ok''), (''ids'', ''P12345'')])
        [(''query'', Str ''abc'')] (Lst [''ids'', ''out''])
        (EBI_init (Some ''demo'') ascii_only Map.empty [''FINISHED'']))
     = Some (Inr (Lst [''P12345'', ''ok'']))"
proof -
  let ?m = "mock_remote ''demo'' ''job-1'' [(''out'', ''ok''), (''ids'', ''P12345'')]"
  let ?p = "[(''query'', Str ''abc'')]"
  let ?s = "EBI_init (Some ''demo'') ascii_only Map.empty [''FINISHED'']"
  have svc: "service ?s = Some ''demo''"
    by (simp add: EBI_init_def)
  have a: "map_option fst (submit ?m ?p (Str ''out'') ?s) = Some (Inr (Str ''ok''))"
    by code_simp
  have b: "map_option fst (submit ?m ?p (Lst [''out'']) ?s) = Some (Inr (Str ''ok''))"
    by code_simp
  have c: "map_option fst (submit ?m ?p (Lst [''ids'', ''out'']) ?s)
      = Some (Inr (Lst [''P12345'', ''ok'']))"
    by code_simp
  from submit_return_value [OF option_triple_the [OF a] svc, of "''out''" "[]"]
  obtain cs where "cs = [hd cs] \<and> Str ''ok'' = Str (hd cs)" by blast
  moreover
  from submit_return_value [OF option_triple_the [OF b] svc, of "''out''" "[]"]
  obtain cs' where "cs' = [hd cs'] \<and> Str ''ok'' = Str (hd cs')" by blast
  moreover
  from submit_return_value [OF option_triple_the [OF c] svc, of "''out''" "[''ids'', ''out'']"]
  obtain cs'' where "length cs'' = length [''ids'', ''out''] \<and> Lst [''P12345'', ''ok''] = Lst cs''"
    by auto
  ultimately show ?thesis using a b c by simp
qed

subsection \<open>The caller's dictionary\<close>

lemma update_same: "map_of d k = Some v \<Longrightarrow> AList.update k v d = d"
  by (induction d) auto

lemma run_params:
  assumes "run srv params s = (x, params', s')"
  shows "params' =
    (if service s = Some ''ncbiblast'' \<and> fst (isLocked srv s) = Inr False
         \<and> map_of params ''database'' \<noteq> None
     then delitem params ''database'' else params)"
  using assms
  by (auto simp: run_def encode_params_def Let_def
      split: option.splits prod.splits sum.splits bool.splits if_splits)

lemma submit_run:
  assumes "submit srv params resultTypes s = Some (r, params', s')"
  shows "\<exists>x s1. run srv (setitem params ''email'' (Str email)) s = (x, params', s1)"
  using assms
  by (auto simp: submit_def split: prod.splits sum.splits option.splits)

lemma option_mid_the:
  "map_option fst x = Some a \<Longrightarrow> map_option (fst \<circ> snd) x = Some (fst (snd (the x)))"
  by (cases x) auto

text \<open>
  Claim C10, as the code has it. \<open>submit\<close> changes the dictionary it is given: whenever
  it returns, the dictionary maps email to the contact string, the entry being set
  before \<open>run\<close> is called (appended when the key is new, overwritten in place
  otherwise); and when the service is ncbiblast, \<open>run\<close> gets past the lock check and
  the key database is present, that key is deleted. The dictionary after the call
  equals the one passed in exactly when it already mapped email to the contact string
  and no database key was deleted.
\<close>

theorem submit_params:
  assumes "submit srv params resultTypes s = Some (r, params', s')"
  shows "params' =
      (if service s = Some ''ncbiblast'' \<and> fst (isLocked srv s) = Inr False
           \<and> map_of params ''database'' \<noteq> None
       then delitem (setitem params ''email'' (Str email)) ''database''
       else setitem params ''email'' (Str email))
     \<and> map_of params' ''email'' = Some (Str email)
     \<and> (params' = params \<longleftrightarrow>
          map_of params ''email'' = Some (Str email)
          \<and> \<not> (service s = Some ''ncbiblast'' \<and> fst (isLocked srv s) = Inr False
                 \<and> map_of params ''database'' \<noteq> None))"
proof -
  let ?del = "service s = Some ''ncbiblast'' \<and> fst (isLocked srv s) = Inr False
           \<and> map_of params ''database'' \<noteq> None"
  let ?p1 = "setitem params ''email'' (Str email)"
  from submit_run [OF assms] obtain x s1 where "run srv ?p1 s = (x, params', s1)" by blast
  from run_params [OF this]
  have p: "params' = (if ?del then delitem ?p1 ''database'' else ?p1)"
    by (simp add: setitem_def update_conv')
  have m1: "map_of ?p1 = (map_of params)(''email'' \<mapsto> Str email)"
    by (simp add: setitem_def update_conv')
  have m2: "map_of (delitem ?p1 ''database'') = (map_of ?p1)(''database'' := None)"
    by (simp add: delitem_def delete_conv')
  have e: "map_of params' ''email'' = Some (Str email)"
    by (simp add: p m1 m2)
  have i: "params' = params \<longleftrightarrow> map_of params ''email'' = Some (Str email) \<and> \<not> ?del"
  proof
    assume eq: "params' = params"
    have "\<not> ?del"
    proof
      assume d: ?del
      then have "map_of params' ''database'' = None" by (simp add: p m2)
      with eq d show False by simp
    qed
    with e eq show "map_of params ''email'' = Some (Str email) \<and> \<not> ?del" by simp
  next
    assume h: "map_of params ''email'' = Some (Str email) \<and> \<not> ?del"
    then have "?p1 = params" by (simp add: setitem_def update_same)
    moreover from h have "\<not> ?del" by simp
    ultimately show "params' = params" by (simp only: p if_False)
  qed
  show ?thesis using p e i by blast
qed

theorem submit_params_witness:
  "map_option (fst \<circ> snd)
     (submit demo_remote [(''query'', Str ''abc'')] (Str ''out'')
        (EBI_init (Some ''demo'') ascii_only Map.empty [''RUNNING'', ''RUNNING'', ''FINISHED'']))
     = Some [(''query'', Str ''abc''), (''email'', Str ''anon@uq.edu.au'')]
   \<and> map_option (fst \<circ> snd)
     (submit (mock_remote ''ncbiblast'' ''job-2'' [(''out'', ''hits'')])
        [(''sequence'', Str ''MKV''), (''database'', Lst [''uniprotkb'', ''pdb''])] (Str ''out'')
        (EBI_init (Some ''ncbiblast'') ascii_only Map.empty [''FINISHED'']))
     = Some [(''sequence'', Str ''MKV''), (''email'', Str ''anon@uq.edu.au'')]"
proof -
  let ?d = "EBI_init (Some ''demo'') ascii_only Map.empty [''RUNNING'', ''RUNNING'', ''FINISHED'']"
  let ?a = "submit demo_remote [(''query'', Str ''abc'')] (Str ''out'') ?d"
  let ?n = "mock_remote ''ncbiblast'' ''job-2'' [(''out'', ''hits'')]"
  let ?s = "EBI_init (Some ''ncbiblast'') ascii_only Map.empty [''FINISHED'']"
  let ?b = "submit ?n
        [(''sequence'', Str ''MKV''), (''database'', Lst [''uniprotkb'', ''pdb''])] (Str ''out'') ?s"
  have a: "map_option fst ?a = Some (Inr (Str ''ok''))" by code_simp
  have b: "map_option fst ?b = Some (Inr (Str ''hits''))" by code_simp
  have ca: "\<not> (service ?d = Some ''ncbiblast'' \<and> fst (isLocked demo_remote ?d) = Inr False
      \<and> map_of [(''query'', Str ''abc'')] ''database'' \<noteq> None)"
    by simp
  have cb: "service ?s = Some ''ncbiblast'' \<and> fst (isLocked ?n ?s) = Inr False
      \<and> map_of [(''sequence'', Str ''MKV''), (''database'', Lst [''uniprotkb'', ''pdb''])]
            ''database'' \<noteq> None"
    by (simp add: EBI_init_def isLocked_def)
  have ea: "setitem [(''query'', Str ''abc'')] ''email'' (Str email)
      = [(''query'', Str ''abc''), (''email'', Str ''anon@uq.edu.au'')]"
    by code_simp
  have eb: "delitem (setitem [(''sequence'', Str ''MKV''),
        (''database'', Lst [''uniprotkb'', ''pdb''])] ''email'' (Str email)) ''database''
      = [(''sequence'', Str ''MKV''), (''email'', Str ''anon@uq.edu.au'')]"
    by code_simp
  have 1: "fst (snd (the ?a)) = [(''query'', Str ''abc''), (''email'', Str ''anon@uq.edu.au'')]"
    using submit_params [OF option_triple_the [OF a], THEN conjunct1]
    by (simp only: ca if_False ea)
  have 2: "fst (snd (the ?b)) = [(''sequence'', Str ''MKV''), (''email'', Str ''anon@uq.edu.au'')]"
    using submit_params [OF option_triple_the [OF b], THEN conjunct1]
    by (simp only: cb if_True eb simp_thms)
  show ?thesis
    using option_mid_the [OF a] option_mid_the [OF b] by (simp only: 1 2 simp_thms)
qed

text \<open>
  Claim C10 as stated fails: a dictionary that already maps email to the contact string,
  given to a service other than ncbiblast, is the same after the call.
\<close>

theorem submit_params_counterexample:
  "map_option (fst \<circ> snd)
     (submit demo_remote [(''query'', Str ''abc''), (''email'', Str ''anon@uq.edu.au'')] (Str ''out'')
        (EBI_init (Some ''demo'') ascii_only Map.empty [''RUNNING'', ''RUNNING'', ''FINISHED'']))
     = Some [(''query'', Str ''abc''), (''email'', Str ''anon@uq.edu.au'')]"
  by code_simp

end
